theory Spec2Isabelle
  imports Complex_Main
begin

section \<open>JavaScript values and strings\<close>

text \<open>
  A JavaScript string is a sequence of UTF-16 code units. The embedding represents a
  string as a \<^typ>\<open>string\<close> and so covers the code units below 256; \<open>length\<close> is the
  \<open>.length\<close> of the source. The values a caller can put into a variables object are
  \<open>undefined\<close>, \<open>null\<close>, booleans, numbers and strings. Of the numbers the embedding
  has the integers; it is faithful on the safe integers (magnitude below \<open>2^53\<close>),
  which a double holds exactly and which print in plain digits.
\<close>

datatype jsval = JUndefined | JNull | JBool bool | JNum int | JStr string

text \<open>\<open>ToBoolean\<close>: what \<open>value || fallback\<close> and \<open>!value\<close> test.\<close>

fun truthy :: "jsval \<Rightarrow> bool" where
  "truthy JUndefined = False"
| "truthy JNull = False"
| "truthy (JBool b) = b"
| "truthy (JNum n) = (n \<noteq> 0)"
| "truthy (JStr s) = (s \<noteq> [])"

fun digitsOf :: "nat \<Rightarrow> string" where
  "digitsOf n =
     (if n < 10 then [''0123456789'' ! n]
      else digitsOf (n div 10) @ [''0123456789'' ! (n mod 10)])"

text \<open>
  \<open>ToString\<close>, applied by \<open>String.prototype.replace\<close> to its replacement value. A safe
  integer prints in plain digits (exponent notation starts at \<open>1e21\<close>).
\<close>

fun toStringJS :: "jsval \<Rightarrow> string" where
  "toStringJS JUndefined = ''undefined''"
| "toStringJS JNull = ''null''"
| "toStringJS (JBool b) = (if b then ''true'' else ''false'')"
| "toStringJS (JNum n) = (if n < 0 then CHR ''-'' # digitsOf (nat (- n)) else digitsOf (nat n))"
| "toStringJS (JStr s) = s"

text \<open>The values on which the embedding follows the source: every number a safe integer.\<close>

definition safeValue :: "jsval \<Rightarrow> bool" where
  "safeValue v =
     (case v of JNum n \<Rightarrow> - 9007199254740991 \<le> n \<and> n \<le> 9007199254740991 | _ \<Rightarrow> True)"

definition startsWith :: "string \<Rightarrow> string \<Rightarrow> bool" where
  "startsWith p s = (take (length p) s = p)"

text \<open>\<open>s.includes(needle)\<close>.\<close>

fun includesJS :: "string \<Rightarrow> string \<Rightarrow> bool" where
  "includesJS needle [] = (needle = [])"
| "includesJS needle (c # cs) = (startsWith needle (c # cs) \<or> includesJS needle cs)"

text \<open>
  \<open>String.prototype.toLowerCase\<close> on code units below 256: the letters A-Z and the
  Latin-1 capitals 0xC0-0xDE (without the multiplication sign 0xD7) move up by 32.
\<close>

definition toLowerChar :: "char \<Rightarrow> char" where
  "toLowerChar c =
     (let n = (of_char c :: nat)
      in if (65 \<le> n \<and> n \<le> 90) \<or> (192 \<le> n \<and> n \<le> 222 \<and> n \<noteq> 215)
         then char_of (n + 32) else c)"

definition toLowerCase :: "string \<Rightarrow> string" where
  "toLowerCase s = map toLowerChar s"

text \<open>The character classes \<open>\w\<close> and \<open>\d\<close> of a regular expression.\<close>

definition isWordChar :: "char \<Rightarrow> bool" where
  "isWordChar c =
     (let n = (of_char c :: nat)
      in (48 \<le> n \<and> n \<le> 57) \<or> (65 \<le> n \<and> n \<le> 90) \<or> n = 95 \<or> (97 \<le> n \<and> n \<le> 122))"

definition isDigit :: "char \<Rightarrow> bool" where
  "isDigit c = (let n = (of_char c :: nat) in 48 \<le> n \<and> n \<le> 57)"

section \<open>Template store (templates.js)\<close>

text \<open>
  The fields of a template object, prefixed with \<open>t_\<close>. Fields that the source leaves
  \<open>undefined\<close> until they are first written are options. \<open>isUserCreated\<close> is absent on
  the built-in templates, which \<open>!template.isUserCreated\<close> reads as false.
\<close>

record template =
  t_id :: string
  t_category :: string
  t_name :: string
  t_description :: string
  t_content :: string
  t_variables :: "string list"
  t_priority :: "nat option"
  t_addresses :: "string list option"
  t_tags :: "string list option"
  t_isUserCreated :: bool
  t_usageCount :: "nat option"
  t_lastUsed :: "nat option"
  t_createdAt :: nat
  t_updatedAt :: nat

text \<open>The \<open>updates\<close> object of \<open>updateTemplate\<close>: the fields it carries are \<open>Some\<close>.\<close>

record template_patch =
  p_id :: "string option"
  p_category :: "string option"
  p_name :: "string option"
  p_description :: "string option"
  p_content :: "string option"
  p_variables :: "string list option"
  p_priority :: "nat option"
  p_addresses :: "string list option"
  p_tags :: "string list option"
  p_isUserCreated :: "bool option"
  p_usageCount :: "nat option"
  p_lastUsed :: "nat option"
  p_createdAt :: "nat option"

record category =
  c_name :: string
  c_description :: string
  c_icon :: string
  c_templates :: "string list"

text \<open>
  The fields of \<open>TemplateManager\<close>. The two maps \<open>templates\<close> and \<open>userTemplates\<close> hold
  references to template objects, and one object can be reached from both, so the
  objects live in \<open>objects\<close> and the maps hold their addresses; \<open>nextRef\<close> is the next
  unused address.
\<close>

record store =
  objects :: "nat \<rightharpoonup> template"
  nextRef :: nat
  templates :: "string \<rightharpoonup> nat"
  categories :: "string \<rightharpoonup> category"
  userTemplates :: "string \<rightharpoonup> nat"
  recentlyUsed :: "string list"
  favorites :: "string set"

text \<open>
  The source throws plain \<open>Error\<close> objects, told apart by their message:
  \<open>Template not found: <id>\<close> (the specification's NotFoundError) and
  \<open>Cannot modify system templates\<close> / \<open>Cannot delete system templates\<close> (its
  PermissionError).
\<close>

datatype error =
    TemplateNotFound string
  | CannotModifySystemTemplates
  | CannotDeleteSystemTemplates

text \<open>\<open>getTemplate\<close>: \<open>this.templates.get(templateId) || null\<close>.\<close>

definition getTemplate :: "string \<Rightarrow> store \<Rightarrow> template option" where
  "getTemplate templateId s =
     (case templates s templateId of None \<Rightarrow> None | Some a \<Rightarrow> objects s a)"

text \<open>
  \<open>trackTemplateUsage\<close>: move the id to the front of the recency list, keep twenty
  entries, and count the use on the template object. \<open>now\<close> is \<open>Date.now()\<close>.
\<close>

definition trackTemplateUsage :: "string \<Rightarrow> nat \<Rightarrow> store \<Rightarrow> store" where
  "trackTemplateUsage templateId now s =
     (let s1 = s\<lparr>recentlyUsed :=
                  take 20 (templateId # filter (\<lambda>i. i \<noteq> templateId) (recentlyUsed s))\<rparr>
      in case templates s1 templateId of
           None \<Rightarrow> s1
         | Some a \<Rightarrow>
             (case objects s1 a of
                None \<Rightarrow> s1
              | Some t \<Rightarrow>
                  s1\<lparr>objects := (objects s1)(a \<mapsto>
                        t\<lparr>t_usageCount :=
                             Some ((case t_usageCount t of None \<Rightarrow> 0 | Some n \<Rightarrow> n) + 1),
                          t_lastUsed := Some now\<rparr>)\<rparr>))"

subsection \<open>Variable substitution\<close>

text \<open>The text \<open>{key}\<close> that the regular expression \<open>\\{key\\}\<close> matches.\<close>

definition token :: "string \<Rightarrow> string" where
  "token key = CHR ''{'' # key @ ''}''"

text \<open>
  \<open>GetSubstitution\<close> for a pattern without capture groups: in the replacement text
  \<open>$$\<close> stands for a dollar sign, \<open>$&\<close> for the matched text, \<open>$`\<close> for the text before
  the match and \<open>$'\<close> for the text after it; every other character is copied.
\<close>

fun getSubstitution :: "string \<Rightarrow> string \<Rightarrow> string \<Rightarrow> string \<Rightarrow> string" where
  "getSubstitution matched preceding following [] = []"
| "getSubstitution matched preceding following [c] = [c]"
| "getSubstitution matched preceding following (c # d # r) =
     (if c = CHR ''$'' \<and> d = CHR ''$'' then CHR ''$'' # getSubstitution matched preceding following r
      else if c = CHR ''$'' \<and> d = CHR ''&'' then matched @ getSubstitution matched preceding following r
      else if c = CHR ''$'' \<and> d = CHR 0x60 then preceding @ getSubstitution matched preceding following r
      else if c = CHR ''$'' \<and> d = CHR 0x27 then following @ getSubstitution matched preceding following r
      else c # getSubstitution matched preceding following (d # r))"

text \<open>
  \<open>content.replace(new RegExp(`\\{${key}\\}`, 'g'), replacement)\<close>, scanning from the
  left; \<open>preceding\<close> is the part of the subject already passed. The pattern is matched as
  the literal text \<open>{key}\<close>, which is what the regular expression does for a key made of
  letters, digits and underscores.
\<close>

fun replaceFrom :: "string \<Rightarrow> string \<Rightarrow> string \<Rightarrow> string \<Rightarrow> string" where
  "replaceFrom key replacement preceding [] = []"
| "replaceFrom key replacement preceding (c # cs) =
     (if startsWith (token key) (c # cs)
      then getSubstitution (token key) preceding (drop (length key + 1) cs) replacement
           @ replaceFrom key replacement (preceding @ token key) (drop (length key + 1) cs)
      else c # replaceFrom key replacement (preceding @ [c]) cs)"

definition replaceToken :: "string \<Rightarrow> string \<Rightarrow> string \<Rightarrow> string" where
  "replaceToken key replacement content = replaceFrom key replacement [] content"

text \<open>
  A variable name written like an identifier: letters, digits and underscores, not
  starting with a digit. For such a key the regular expression \<open>\\{key\\}\<close> has no
  metacharacter and matches exactly the text \<open>{key}\<close>, and the key is not an array index,
  so \<open>Object.entries\<close> lists it in insertion order. The substitution functions of this
  section follow the source on keys of this shape only: the source does not escape the
  key, so a key with a metacharacter (\<open>a.c\<close>, \<open>a+\<close>) makes a pattern that matches other
  text than \<open>{key}\<close>, or no valid pattern at all.
\<close>

definition identifierKey :: "string \<Rightarrow> bool" where
  "identifierKey k =
     (list_all isWordChar k \<and> (case k of [] \<Rightarrow> True | c # _ \<Rightarrow> \<not> isDigit c))"

text \<open>
  For comparison with \<open>replaceToken\<close>: replace every occurrence of the text \<open>pat\<close>, from
  the left and without overlap, by the text \<open>rep\<close> taken literally.
\<close>

fun replaceEvery :: "string \<Rightarrow> string \<Rightarrow> string \<Rightarrow> string" where
  "replaceEvery pat rep [] = []"
| "replaceEvery pat rep (c # cs) =
     (if pat \<noteq> [] \<and> startsWith pat (c # cs)
      then rep @ replaceEvery pat rep (drop (length pat - 1) cs)
      else c # replaceEvery pat rep cs)"

text \<open>Assignment to a property of an object literal: an existing key keeps its place.\<close>

fun setProperty :: "(string \<times> jsval) list \<Rightarrow> string \<times> jsval \<Rightarrow> (string \<times> jsval) list" where
  "setProperty [] kv = [kv]"
| "setProperty (p # ps) kv = (if fst p = fst kv then kv # ps else p # setProperty ps kv)"

text \<open>
  \<open>{ prompt: originalPrompt, original_prompt: originalPrompt, ...variables }\<close> as the
  list that \<open>Object.entries\<close> returns. \<open>variables\<close> is given by its own entries, in order;
  for keys that are not array indices that order is insertion order.
\<close>

definition allVariables :: "string \<Rightarrow> (string \<times> jsval) list \<Rightarrow> (string \<times> jsval) list" where
  "allVariables originalPrompt variables =
     foldl setProperty
       [(''prompt'', JStr originalPrompt), (''original_prompt'', JStr originalPrompt)]
       variables"

text \<open>The body of the \<open>forEach\<close>: \<open>content.replace(regex, value || `[${key}]`)\<close>.\<close>

definition substituteVariable :: "string \<Rightarrow> string \<times> jsval \<Rightarrow> string" where
  "substituteVariable content kv =
     replaceToken (fst kv)
       (toStringJS (if truthy (snd kv) then snd kv else JStr (CHR ''['' # fst kv @ '']'')))
       content"

text \<open>
  For comparison: the entry with a falsy value replaced by its placeholder text
  \<open>[key]\<close>.
\<close>

definition withPlaceholder :: "string \<times> jsval \<Rightarrow> string \<times> jsval" where
  "withPlaceholder kv =
     (fst kv, if truthy (snd kv) then snd kv else JStr (CHR ''['' # fst kv @ '']''))"

definition applyTemplate ::
    "string \<Rightarrow> string \<Rightarrow> (string \<times> jsval) list \<Rightarrow> nat \<Rightarrow> store \<Rightarrow> (error + string) \<times> store" where
  "applyTemplate templateId originalPrompt variables now s =
     (case getTemplate templateId s of
        None \<Rightarrow> (Inl (TemplateNotFound templateId), s)
      | Some t \<Rightarrow>
          (Inr (foldl substituteVariable (t_content t) (allVariables originalPrompt variables)),
           trackTemplateUsage templateId now s))"

subsection \<open>Update, delete, favourites\<close>

text \<open>\<open>{ ...template, ...updates }\<close>.\<close>

definition mergeTemplate :: "template \<Rightarrow> template_patch \<Rightarrow> template" where
  "mergeTemplate t u =
     \<lparr>t_id = (case p_id u of None \<Rightarrow> t_id t | Some v \<Rightarrow> v),
      t_category = (case p_category u of None \<Rightarrow> t_category t | Some v \<Rightarrow> v),
      t_name = (case p_name u of None \<Rightarrow> t_name t | Some v \<Rightarrow> v),
      t_description = (case p_description u of None \<Rightarrow> t_description t | Some v \<Rightarrow> v),
      t_content = (case p_content u of None \<Rightarrow> t_content t | Some v \<Rightarrow> v),
      t_variables = (case p_variables u of None \<Rightarrow> t_variables t | Some v \<Rightarrow> v),
      t_priority = (case p_priority u of None \<Rightarrow> t_priority t | Some v \<Rightarrow> Some v),
      t_addresses = (case p_addresses u of None \<Rightarrow> t_addresses t | Some v \<Rightarrow> Some v),
      t_tags = (case p_tags u of None \<Rightarrow> t_tags t | Some v \<Rightarrow> Some v),
      t_isUserCreated = (case p_isUserCreated u of None \<Rightarrow> t_isUserCreated t | Some v \<Rightarrow> v),
      t_usageCount = (case p_usageCount u of None \<Rightarrow> t_usageCount t | Some v \<Rightarrow> Some v),
      t_lastUsed = (case p_lastUsed u of None \<Rightarrow> t_lastUsed t | Some v \<Rightarrow> Some v),
      t_createdAt = (case p_createdAt u of None \<Rightarrow> t_createdAt t | Some v \<Rightarrow> v),
      t_updatedAt = t_updatedAt t\<rparr>"

definition updateTemplate ::
    "string \<Rightarrow> template_patch \<Rightarrow> nat \<Rightarrow> store \<Rightarrow> (error + unit) \<times> store" where
  "updateTemplate templateId updates now s =
     (case getTemplate templateId s of
        None \<Rightarrow> (Inl (TemplateNotFound templateId), s)
      | Some t \<Rightarrow>
          if \<not> t_isUserCreated t then (Inl CannotModifySystemTemplates, s)
          else
            (let updatedTemplate = (mergeTemplate t updates)\<lparr>t_updatedAt := now\<rparr>;
                 a = nextRef s
             in (Inr (),
                 s\<lparr>objects := (objects s)(a \<mapsto> updatedTemplate),
                   nextRef := Suc a,
                   templates := (templates s)(templateId \<mapsto> a),
                   userTemplates := (userTemplates s)(templateId \<mapsto> a)\<rparr>)))"

definition deleteTemplate :: "string \<Rightarrow> store \<Rightarrow> (error + unit) \<times> store" where
  "deleteTemplate templateId s =
     (case getTemplate templateId s of
        None \<Rightarrow> (Inr (), s)
      | Some t \<Rightarrow>
          if \<not> t_isUserCreated t then (Inl CannotDeleteSystemTemplates, s)
          else
            (Inr (),
             s\<lparr>templates := (templates s)(templateId := None),
               userTemplates := (userTemplates s)(templateId := None),
               favorites := favorites s - {templateId},
               categories :=
                 (case categories s (t_category t) of
                    None \<Rightarrow> categories s
                  | Some c \<Rightarrow>
                      (categories s)(t_category t \<mapsto>
                        c\<lparr>c_templates := filter (\<lambda>i. i \<noteq> templateId) (c_templates c)\<rparr>)),
               recentlyUsed := filter (\<lambda>i. i \<noteq> templateId) (recentlyUsed s)\<rparr>))"

definition toggleFavorite :: "string \<Rightarrow> store \<Rightarrow> store" where
  "toggleFavorite templateId s =
     (if templateId \<in> favorites s
      then s\<lparr>favorites := favorites s - {templateId}\<rparr>
      else s\<lparr>favorites := insert templateId (favorites s)\<rparr>)"

text \<open>A store with one built-in template, used to run the operations on.\<close>

definition topicTemplate :: template where
  "topicTemplate =
     \<lparr>t_id = ''t1'', t_category = ''general'', t_name = ''Topic'',
      t_description = ''Ask about a topic'', t_content = ''Tell me about {topic}.'',
      t_variables = [''topic''], t_priority = Some 50, t_addresses = None, t_tags = None,
      t_isUserCreated = False, t_usageCount = None, t_lastUsed = None,
      t_createdAt = 0, t_updatedAt = 0\<rparr>"

definition topicStore :: store where
  "topicStore =
     \<lparr>objects = [0 \<mapsto> topicTemplate], nextRef = 1, templates = [''t1'' \<mapsto> 0],
      categories = [''general'' \<mapsto>
        \<lparr>c_name = ''General Purpose'', c_description = ''Versatile templates for common requests'',
         c_icon = '''', c_templates = [''t1'']\<rparr>],
      userTemplates = Map.empty, recentlyUsed = [], favorites = {}\<rparr>"

text \<open>An \<open>updates\<close> object that carries a new name and nothing else.\<close>

definition renamePatch :: template_patch where
  "renamePatch =
     \<lparr>p_id = None, p_category = None, p_name = Some ''Renamed'', p_description = None,
      p_content = None, p_variables = None, p_priority = None, p_addresses = None,
      p_tags = None, p_isUserCreated = None, p_usageCount = None, p_lastUsed = None,
      p_createdAt = None\<rparr>"

section \<open>Regular expressions of the analyzer, as matchers\<close>

text \<open>
  Each regular expression of the source is written out as the matcher it denotes. The
  classes: \<open>\s\<close> is white space including the line terminators, and \<open>.\<close> is any
  character except a line terminator (the source sets neither the \<open>s\<close> nor the \<open>m\<close>
  flag). With the \<open>i\<close> flag a letter of the pattern matches both of its cases: the
  subject is lower-cased once, and the patterns, written in lower case, are matched on
  it literally. Lower-casing changes no white space, digit or line terminator and keeps
  word characters word characters.
\<close>

definition isSpace :: "char \<Rightarrow> bool" where
  "isSpace c = (let n = (of_char c :: nat) in (9 \<le> n \<and> n \<le> 13) \<or> n = 32 \<or> n = 160)"

definition isLineTerminator :: "char \<Rightarrow> bool" where
  "isLineTerminator c = (let n = (of_char c :: nat) in n = 10 \<or> n = 13)"

definition isLowerAZ :: "char \<Rightarrow> bool" where
  "isLowerAZ c = (let n = (of_char c :: nat) in 97 \<le> n \<and> n \<le> 122)"

definition isSentenceEnd :: "char \<Rightarrow> bool" where
  "isSentenceEnd c = (c = CHR ''.'' \<or> c = CHR ''!'' \<or> c = CHR ''?'')"

definition isVowel :: "char \<Rightarrow> bool" where
  "isVowel c = (c \<in> set ''aeiouy'')"

definition startsWithAny :: "string list \<Rightarrow> string \<Rightarrow> bool" where
  "startsWithAny ps s = list_ex (\<lambda>p. startsWith p s) ps"

text \<open>Is the next character a word character (\<open>\w\<close>)? At the end of the text it is not.\<close>

definition wordNext :: "string \<Rightarrow> bool" where
  "wordNext s = (case s of [] \<Rightarrow> False | c # _ \<Rightarrow> isWordChar c)"

text \<open>
  \<open>\b\<close> between the previous character (\<open>prevW\<close>: was it a word character?) and the rest
  \<open>s\<close> of the text.
\<close>

definition boundary :: "bool \<Rightarrow> string \<Rightarrow> bool" where
  "boundary prevW s = (prevW \<noteq> wordNext s)"

text \<open>
  \<open>\b(p1|p2|...)\b\<close> tried at one position: the length of the match, for the first
  alternative that matches with a boundary on both sides.
\<close>

definition matchWord :: "string list \<Rightarrow> bool \<Rightarrow> string \<Rightarrow> nat option" where
  "matchWord ps prevW s =
     (if boundary prevW s
      then (case filter (\<lambda>p. startsWith p s \<and> p \<noteq> []
                              \<and> boundary (isWordChar (last p)) (drop (length p) s)) ps of
              [] \<Rightarrow> None
            | p # _ \<Rightarrow> Some (length p))
      else None)"

text \<open>
  A search: does the matcher \<open>P\<close> succeed at some position? \<open>P\<close> is given whether the
  character before the position was a word character, and the text from the position on.
\<close>

fun searchFrom :: "(bool \<Rightarrow> string \<Rightarrow> bool) \<Rightarrow> bool \<Rightarrow> string \<Rightarrow> bool" where
  "searchFrom P prevW [] = P prevW []"
| "searchFrom P prevW (c # cs) = (P prevW (c # cs) \<or> searchFrom P (isWordChar c) cs)"

definition search :: "(bool \<Rightarrow> string \<Rightarrow> bool) \<Rightarrow> string \<Rightarrow> bool" where
  "search P s = searchFrom P False s"

text \<open>
  The lookahead \<open>(?=.*X)\<close> at the start of the text: \<open>.*\<close> passes characters of the first
  line only, so \<open>X\<close> is searched at the positions of the first line.
\<close>

fun searchLineFrom :: "(bool \<Rightarrow> string \<Rightarrow> bool) \<Rightarrow> bool \<Rightarrow> string \<Rightarrow> bool" where
  "searchLineFrom P prevW [] = P prevW []"
| "searchLineFrom P prevW (c # cs) =
     (P prevW (c # cs) \<or> (\<not> isLineTerminator c \<and> searchLineFrom P (isWordChar c) cs))"

text \<open>\<open>^(?!.*X).+$\<close>: no \<open>X\<close> on the first line, and the text is one non-empty line.\<close>

definition lacksOnOneLine :: "(bool \<Rightarrow> string \<Rightarrow> bool) \<Rightarrow> string \<Rightarrow> bool" where
  "lacksOnOneLine P s =
     (\<not> searchLineFrom P False s \<and> s \<noteq> [] \<and> list_all (\<lambda>c. \<not> isLineTerminator c) s)"

text \<open>
  \<open>text.match(/\b(p1|p2|...)\b/gi)\<close>: the number of matches, on the lower-cased text.
  \<open>skip\<close> counts the characters of the current match still to be passed; the next match
  is looked for after it.
\<close>

fun countWords :: "string list \<Rightarrow> nat \<Rightarrow> bool \<Rightarrow> string \<Rightarrow> nat" where
  "countWords ps skip prevW [] = 0"
| "countWords ps (Suc skip) prevW (c # cs) = countWords ps skip (isWordChar c) cs"
| "countWords ps 0 prevW (c # cs) =
     (case matchWord ps prevW (c # cs) of
        Some n \<Rightarrow> 1 + countWords ps (n - 1) (isWordChar c) cs
      | None \<Rightarrow> countWords ps 0 (isWordChar c) cs)"

text \<open>
  \<open>text.replace(/\b(p1|p2|...)\b/gi, rep)\<close> for a replacement text without \<open>$\<close>. The
  text is read together with its lower-cased copy \<open>low\<close>, on which the patterns are
  matched.
\<close>

fun replaceWords ::
    "string list \<Rightarrow> string \<Rightarrow> nat \<Rightarrow> bool \<Rightarrow> string \<Rightarrow> string \<Rightarrow> string" where
  "replaceWords ps rep skip prevW [] low = []"
| "replaceWords ps rep (Suc skip) prevW (c # cs) low =
     replaceWords ps rep skip (isWordChar c) cs (tl low)"
| "replaceWords ps rep 0 prevW (c # cs) low =
     (case matchWord ps prevW low of
        Some n \<Rightarrow> rep @ replaceWords ps rep (n - 1) (isWordChar c) cs (tl low)
      | None \<Rightarrow> c # replaceWords ps rep 0 (isWordChar c) cs (tl low))"

definition replaceWordsCI :: "string list \<Rightarrow> string \<Rightarrow> string \<Rightarrow> string" where
  "replaceWordsCI ps rep text = replaceWords ps rep 0 False text (toLowerCase text)"

text \<open>
  \<open>text.match(/\b\d+\b/g)\<close>: the number of matches, one for each maximal run of digits
  that has no word character before or after it.
\<close>

fun countNumbers :: "bool \<Rightarrow> string \<Rightarrow> nat" where
  "countNumbers prevW [] = 0"
| "countNumbers prevW (c # cs) =
     (if \<not> prevW \<and> isDigit c \<and> \<not> wordNext (dropWhile isDigit cs) then 1 else 0)
     + countNumbers (isWordChar c) cs"

text \<open>
  \<open>text.match(/\b[a-z]+\b/g)\<close>: the matches, one for each maximal run of lower-case letters
  that has no word character before or after it.
\<close>

fun letterWords :: "bool \<Rightarrow> string \<Rightarrow> string list" where
  "letterWords prevW [] = []"
| "letterWords prevW (c # cs) =
     (if \<not> prevW \<and> isLowerAZ c \<and> \<not> wordNext (dropWhile isLowerAZ cs)
      then [c # takeWhile isLowerAZ cs] else [])
     @ letterWords (isWordChar c) cs"

text \<open>\<open>word.match(/[aeiouy]+/g)\<close>: the number of maximal runs of vowels.\<close>

fun vowelGroups :: "bool \<Rightarrow> string \<Rightarrow> nat" where
  "vowelGroups prevV [] = 0"
| "vowelGroups prevV (c # cs) =
     (if isVowel c \<and> \<not> prevV then 1 else 0) + vowelGroups (isVowel c) cs"

text \<open>
  \<open>text.split(/[sep]+/)\<close> for a character class: the pieces between the maximal runs of
  separator characters, empty pieces at both ends included. \<open>cur\<close> is the piece being
  read and \<open>inSep\<close> tells that the last character was a separator.
\<close>

fun splitRuns :: "(char \<Rightarrow> bool) \<Rightarrow> string \<Rightarrow> bool \<Rightarrow> string \<Rightarrow> string list" where
  "splitRuns sep cur inSep [] = [cur]"
| "splitRuns sep cur inSep (c # cs) =
     (if sep c then (if inSep then splitRuns sep [] True cs else cur # splitRuns sep [] True cs)
      else splitRuns sep (cur @ [c]) False cs)"

definition splitOn :: "(char \<Rightarrow> bool) \<Rightarrow> string \<Rightarrow> string list" where
  "splitOn sep s = splitRuns sep [] False s"

text \<open>
  \<open>text.split(/\n\s*\n/)\<close>: a separator starts at a line feed and runs, through white
  space, to the last line feed of that white space.
\<close>

definition paragraphBreak :: "string \<Rightarrow> nat" where
  "paragraphBreak cs =
     (let ws = takeWhile isSpace cs
      in length ws - length (takeWhile (\<lambda>c. c \<noteq> CHR 0x0A) (rev ws)))"

fun splitParagraphs :: "nat \<Rightarrow> string \<Rightarrow> string \<Rightarrow> string list" where
  "splitParagraphs skip cur [] = [cur]"
| "splitParagraphs (Suc skip) cur (c # cs) = splitParagraphs skip cur cs"
| "splitParagraphs 0 cur (c # cs) =
     (if c = CHR 0x0A \<and> CHR 0x0A \<in> set (takeWhile isSpace cs)
      then cur # splitParagraphs (paragraphBreak cs) [] cs
      else splitParagraphs 0 (cur @ [c]) cs)"

text \<open>\<open>String.prototype.trim\<close>.\<close>

definition trim :: "string \<Rightarrow> string" where
  "trim s = rev (dropWhile isSpace (rev (dropWhile isSpace s)))"

section \<open>Prompt analyzer (analyzer.js)\<close>

record issue =
  i_type :: string
  i_severity :: string
  i_message :: string
  i_suggestion :: string

record metrics =
  characterCount :: nat
  wordCount :: nat
  sentenceCount :: nat
  paragraphCount :: nat
  averageWordsPerSentence :: real
  readabilityScore :: real
  complexityScore :: nat
  specificityScore :: nat

text \<open>
  A suggestion object of the analyzer. \<open>example\<close> is absent on the template suggestion,
  and \<open>template: true\<close> is set on it alone.
\<close>

record analyzerSuggestion =
  s_id :: string
  s_type :: string
  s_category :: string
  s_priority :: nat
  s_title :: string
  s_description :: string
  s_example :: "string option"
  s_template :: bool

text \<open>
  The analysis object without its \<open>context\<close> and \<open>timestamp\<close> fields. \<open>metrics\<close> is
  \<open>None\<close> for the empty object \<open>{}\<close> that \<open>createEmptyAnalysis\<close> stores.
\<close>

record analysis =
  originalText :: string
  metrics :: "metrics option"
  issues :: "issue list"
  suggestions :: "analyzerSuggestion list"
  score :: int
  category :: string


subsection \<open>The patterns and rules\<close>

text \<open>\<open>tooVague: /(what|how|why|tell me about|explain)\s*$/i\<close>\<close>

definition tooVague :: "string \<Rightarrow> bool" where
  "tooVague text =
     search (\<lambda>_ s. list_ex (\<lambda>p. startsWith p s \<and> list_all isSpace (drop (length p) s))
                     [''what'', ''how'', ''why'', ''tell me about'', ''explain''])
       (toLowerCase text)"

text \<open>\<open>noContext: /^(?!.*\b(context|background|scenario|situation)\b).+$/i\<close>\<close>

definition contextWordHere :: "bool \<Rightarrow> string \<Rightarrow> bool" where
  "contextWordHere prevW s =
     (matchWord [''context'', ''background'', ''scenario'', ''situation''] prevW s \<noteq> None)"

definition noContext :: "string \<Rightarrow> bool" where
  "noContext text = lacksOnOneLine contextWordHere (toLowerCase text)"

text \<open>\<open>needsSpecificity: /(general|basic|simple|quick|brief)\s+(help|info|explanation)/i\<close>\<close>

definition needsSpecificity :: "string \<Rightarrow> bool" where
  "needsSpecificity text =
     search (\<lambda>_ s. list_ex (\<lambda>p. startsWith p s
                       \<and> (case drop (length p) s of [] \<Rightarrow> False | c # _ \<Rightarrow> isSpace c)
                       \<and> startsWithAny [''help'', ''info'', ''explanation'']
                            (dropWhile isSpace (drop (length p) s)))
                     [''general'', ''basic'', ''simple'', ''quick'', ''brief''])
       (toLowerCase text)"

text \<open>\<open>needsRole: /^(?!.*(act as|you are|assume you|pretend|role of)).+$/i\<close>\<close>

definition rolePhrases :: "string list" where
  "rolePhrases = [''act as'', ''you are'', ''assume you'', ''pretend'', ''role of'']"

definition rolePhraseHere :: "bool \<Rightarrow> string \<Rightarrow> bool" where
  "rolePhraseHere prevW s = startsWithAny rolePhrases s"

definition needsRole :: "string \<Rightarrow> bool" where
  "needsRole text = lacksOnOneLine rolePhraseHere (toLowerCase text)"

text \<open>\<open>needsFormat: /^(?!.*(format|structure|organize|list|table|bullet)).+$/i\<close>\<close>

definition needsFormat :: "string \<Rightarrow> bool" where
  "needsFormat text =
     lacksOnOneLine
       (\<lambda>_ s. startsWithAny
                 [''format'', ''structure'', ''organize'', ''list'', ''table'', ''bullet''] s)
       (toLowerCase text)"

text \<open>\<open>needsExamples: /(example|sample|instance|demonstrate)/i\<close>\<close>

definition needsExamples :: "string \<Rightarrow> bool" where
  "needsExamples text =
     search (\<lambda>_ s. startsWithAny [''example'', ''sample'', ''instance'', ''demonstrate''] s)
       (toLowerCase text)"

text \<open>The four patterns anchored at the start of the text.\<close>

definition question :: "string \<Rightarrow> bool" where
  "question text =
     startsWithAny [''what'', ''how'', ''why'', ''when'', ''where'', ''who'', ''which'',
                    ''can you'', ''could you'', ''would you''] (toLowerCase text)"

definition instruction :: "string \<Rightarrow> bool" where
  "instruction text =
     startsWithAny [''write'', ''create'', ''generate'', ''make'', ''build'', ''design'',
                    ''develop''] (toLowerCase text)"

definition analysisPattern :: "string \<Rightarrow> bool" where
  "analysisPattern text =
     startsWithAny [''analyze'', ''compare'', ''evaluate'', ''assess'', ''review'', ''examine'']
       (toLowerCase text)"

definition explanation :: "string \<Rightarrow> bool" where
  "explanation text =
     startsWithAny [''explain'', ''describe'', ''tell me'', ''clarify''] (toLowerCase text)"

text \<open>
  \<open>hasCode: /```[\s\S]*```|`[^`]+`/\<close>: a fence of three backquotes with another one
  later, or a backquote, at least one other character, and a backquote.
\<close>

definition hasCode :: "string \<Rightarrow> bool" where
  "hasCode text =
     search (\<lambda>_ s. (startsWith [CHR 0x60, CHR 0x60, CHR 0x60] s
                      \<and> includesJS [CHR 0x60, CHR 0x60, CHR 0x60] (drop 3 s))
                  \<or> (case s of
                        a # b # r \<Rightarrow> a = CHR 0x60 \<and> b \<noteq> CHR 0x60 \<and> CHR 0x60 \<in> set r
                      | _ \<Rightarrow> False)) text"

text \<open>\<open>hasData: /\b\d+%|\$\d+|\d+\s*(users|customers|records|items)/i\<close>\<close>

definition hasData :: "string \<Rightarrow> bool" where
  "hasData text =
     search (\<lambda>prevW s.
               (\<not> prevW \<and> (case s of [] \<Rightarrow> False | c # _ \<Rightarrow> isDigit c)
                  \<and> startsWith ''%'' (dropWhile isDigit s))
             \<or> (case s of a # b # _ \<Rightarrow> a = CHR ''$'' \<and> isDigit b | _ \<Rightarrow> False)
             \<or> ((case s of [] \<Rightarrow> False | c # _ \<Rightarrow> isDigit c)
                  \<and> startsWithAny [''users'', ''customers'', ''records'', ''items'']
                       (dropWhile isSpace (dropWhile isDigit s)))) (toLowerCase text)"

text \<open>\<open>rules.minLength\<close>, \<open>rules.maxLength\<close>, \<open>rules.optimalLength\<close>.\<close>

definition minLength :: nat where
  "minLength = 15"

definition maxLength :: nat where
  "maxLength = 2000"

definition optimalLength :: "nat \<times> nat" where
  "optimalLength = (50, 500)"

subsection \<open>Metrics\<close>

text \<open>
  \<open>countSyllables\<close>. The running total is shared by all words: the silent-e decrement and
  the floor of one apply to the total, as the source has them.
\<close>

definition syllableStep :: "int \<Rightarrow> string \<Rightarrow> int" where
  "syllableStep syllables word =
     (let s1 = syllables + (if vowelGroups False word = 0 then 1 else int (vowelGroups False word));
          s2 = (if word \<noteq> [] \<and> last word = CHR ''e'' then s1 - 1 else s1)
      in if s2 < 1 then 1 else s2)"

definition countSyllables :: "string \<Rightarrow> int" where
  "countSyllables text = foldl syllableStep 0 (letterWords False (toLowerCase text))"

text \<open>
  \<open>calculateReadability\<close>. The source computes with IEEE doubles; here the arithmetic is
  that of the real numbers.
\<close>

definition calculateReadability :: "string \<Rightarrow> real" where
  "calculateReadability text =
     (let words = length (splitOn isSpace text);
          sentences = length (splitOn isSentenceEnd text);
          syllables = countSyllables text
      in if words = 0 \<or> sentences = 0 then 0
         else
           (let avgSentenceLength = real words / real sentences;
                avgSyllablesPerWord = real_of_int syllables / real words;
                sc = 206.835 - (1.015 * avgSentenceLength) - (84.6 * avgSyllablesPerWord)
            in max 0 (min 100 sc)))"

definition calculateComplexity :: "string \<Rightarrow> nat" where
  "calculateComplexity text =
     (let technicalWords =
            countWords [''algorithm'', ''implement'', ''optimize'', ''analyze'', ''framework'',
                        ''architecture''] 0 False (toLowerCase text);
          s1 = technicalWords * 10;
          s2 = (if hasCode text then s1 + 20 else s1);
          requirements =
            countWords [''and'', ''also'', ''additionally'', ''furthermore'', ''moreover'']
              0 False (toLowerCase text);
          s3 = s2 + requirements * 5;
          conditionals =
            countWords [''if'', ''when'', ''unless'', ''provided'', ''given''] 0 False
              (toLowerCase text);
          s4 = s3 + conditionals * 3
      in min 100 s4)"

definition calculateSpecificity :: "string \<Rightarrow> nat" where
  "calculateSpecificity text =
     (let numbers = countNumbers False text;
          s1 = numbers * 5;
          specificTerms =
            countWords [''exactly'', ''precisely'', ''specifically'', ''particular'', ''detailed'']
              0 False (toLowerCase text);
          s2 = s1 + specificTerms * 10;
          s3 = (if needsExamples text then s2 + 15 else s2);
          s4 = (if \<not> needsRole text then s3 + 10 else s3);
          s5 = (if \<not> needsFormat text then s4 + 10 else s4)
      in min 100 s5)"

definition calculateMetrics :: "string \<Rightarrow> metrics" where
  "calculateMetrics text =
     (let words = filter (\<lambda>w. length w > 0) (splitOn isSpace (trim text));
          sentences = filter (\<lambda>s. length (trim s) > 0) (splitOn isSentenceEnd text);
          paragraphs = filter (\<lambda>p. length (trim p) > 0) (splitParagraphs 0 [] text)
      in \<lparr>characterCount = length text,
          wordCount = length words,
          sentenceCount = length sentences,
          paragraphCount = length paragraphs,
          averageWordsPerSentence =
            (if length sentences > 0 then real (length words) / real (length sentences) else 0),
          readabilityScore = calculateReadability text,
          complexityScore = calculateComplexity text,
          specificityScore = calculateSpecificity text\<rparr>)"

subsection \<open>Issues\<close>

definition identifyIssues :: "string \<Rightarrow> issue list" where
  \<open>identifyIssues text =
     (if length text < minLength
      then [\<lparr>i_type = ''length'', i_severity = ''high'',
             i_message = ''Prompt is too short and may lack necessary detail'',
             i_suggestion = ''Add more context and specific requirements''\<rparr>]
      else if length text > maxLength
      then [\<lparr>i_type = ''length'', i_severity = ''medium'',
             i_message = ''Prompt is very long and may be overwhelming'',
             i_suggestion = ''Consider breaking into smaller, focused requests''\<rparr>]
      else [])
     @ (if tooVague text
        then [\<lparr>i_type = ''vagueness'', i_severity = ''high'',
               i_message = ''Prompt is too vague and generic'',
               i_suggestion = ''Be more specific about what you want to achieve''\<rparr>]
        else [])
     @ (if noContext text \<and> length text > 30
        then [\<lparr>i_type = ''context'', i_severity = ''medium'',
               i_message = ''Prompt lacks background context'',
               i_suggestion = ''Provide relevant background information or constraints''\<rparr>]
        else [])
     @ (if needsRole text \<and> length text > 50
        then [\<lparr>i_type = ''role'', i_severity = ''low'',
               i_message = ''Could benefit from defining AI role or expertise'',
               i_suggestion =
                 ''Start with "Act as a [role]" or "You are an expert in [field]"''\<rparr>]
        else [])
     @ (if needsFormat text \<and> length text > 40
        then [\<lparr>i_type = ''format'', i_severity = ''low'',
               i_message = ''Output format not specified'',
               i_suggestion = ''Specify desired format (list, table, paragraphs, etc.)''\<rparr>]
        else [])
     @ (if needsSpecificity text
        then [\<lparr>i_type = ''specificity'', i_severity = ''medium'',
               i_message = ''Request is too general'',
               i_suggestion = ''Replace general terms with specific requirements''\<rparr>]
        else [])\<close>

subsection \<open>Category and score\<close>

definition categorizePrompt :: "string \<Rightarrow> string" where
  "categorizePrompt text =
     (if question text then ''question''
      else if instruction text then ''instruction''
      else if analysisPattern text then ''analysis''
      else if explanation text then ''explanation''
      else if hasCode text then ''technical''
      else if hasData text then ''data''
      else ''general'')"

text \<open>
  The body of the \<open>forEach\<close> over the issues in \<open>calculateScore\<close>: the \<open>switch\<close> on the
  severity, with no case for any other value.
\<close>

definition penalize :: "real \<Rightarrow> issue \<Rightarrow> real" where
  "penalize sc i =
     (if i_severity i = ''high'' then sc - 15
      else if i_severity i = ''medium'' then sc - 10
      else if i_severity i = ''low'' then sc - 5
      else sc)"

text \<open>
  \<open>calculateScore\<close> reads \<open>analysis.metrics\<close> and \<open>analysis.issues\<close>; these are its two
  arguments here. \<open>Math.round\<close> rounds halves up, as \<open>round\<close> does. As in
  \<open>calculateReadability\<close>, doubles are taken as real numbers.
\<close>

definition calculateScore :: "metrics \<Rightarrow> issue list \<Rightarrow> int" where
  "calculateScore m is =
     (let s0 = (50 :: real);
          s1 = (if wordCount m \<ge> fst optimalLength \<and> wordCount m \<le> snd optimalLength
                then s0 + 20
                else if wordCount m < fst optimalLength then s0 - 15
                else s0 - 10);
          s2 = foldl penalize s1 is;
          s3 = s2 + real (specificityScore m) * 0.3;
          s4 = s3 + readabilityScore m * 0.1
      in max 0 (min 100 (round s4)))"

text \<open>
  For comparison with \<open>calculateScore\<close>: the score as the specification words it, from
  the numbers of high, medium and low issues.
\<close>

definition countSeverity :: "string \<Rightarrow> issue list \<Rightarrow> nat" where
  "countSeverity sev is = length (filter (\<lambda>i. i_severity i = sev) is)"

definition lengthBonus :: "nat \<Rightarrow> real" where
  "lengthBonus w = (if 50 \<le> w \<and> w \<le> 500 then 20 else if w < 50 then - 15 else - 10)"

definition specScore :: "metrics \<Rightarrow> issue list \<Rightarrow> int" where
  "specScore m is =
     max 0 (min 100 (round (50 + lengthBonus (wordCount m)
       - 15 * real (countSeverity ''high'' is)
       - 10 * real (countSeverity ''medium'' is)
       - 5 * real (countSeverity ''low'' is)
       + 0.3 * real (specificityScore m) + 0.1 * readabilityScore m)))"

subsection \<open>Suggestions of the analyzer\<close>

definition getSeverityPriority :: "string \<Rightarrow> nat" where
  "getSeverityPriority severity =
     (if severity = ''high'' then 90
      else if severity = ''medium'' then 60
      else if severity = ''low'' then 30
      else 10)"

text \<open>\<open>originalText.substring(0, 30)\<close> is \<open>take 30\<close>; \<open>\n\<close> is the line feed.\<close>

definition getExampleForIssue :: "string \<Rightarrow> string \<Rightarrow> string" where
  \<open>getExampleForIssue issueType original =
     (if issueType = ''length''
      then ''Instead of: "'' @ take 30 original @ ''..."'' @ [CHR 0x0A]
           @ ''Try: "I'm working on [context]. Please help me [specific request] by [method]. I need this for [purpose].''
      else if issueType = ''vagueness''
      then ''Instead of: "How do I do X?"'' @ [CHR 0x0A]
           @ ''Try: "How do I implement X in [technology] for [use case] considering [constraints]?"''
      else if issueType = ''context''
      then ''Add context like: "I'm a [role] working on [project]. Given that [situation], I need to [goal]."''
      else if issueType = ''role''
      then ''Start with: "Act as a [expert type] with experience in [field]."''
      else if issueType = ''format''
      then ''Specify format: "Please provide your response as [format: bullet points/table/numbered list/etc.]"''
      else ''Consider being more specific and providing additional context.'')\<close>

definition getCategorySpecificSuggestions :: "string \<Rightarrow> string \<Rightarrow> analyzerSuggestion list" where
  "getCategorySpecificSuggestions cat text =
     (if cat = ''question''
      then [\<lparr>s_id = ''question_context'', s_type = ''enhancement'', s_category = ''context'',
             s_priority = 70, s_title = ''Add background context'',
             s_description = ''Provide relevant background information to get better answers'',
             s_example = Some ''Include your experience level, current situation, or specific constraints'',
             s_template = False\<rparr>]
      else if cat = ''instruction''
      then [\<lparr>s_id = ''instruction_requirements'', s_type = ''enhancement'',
             s_category = ''requirements'', s_priority = 80,
             s_title = ''Specify detailed requirements'',
             s_description = ''Include specific requirements, constraints, and success criteria'',
             s_example = Some ''Add target audience, length requirements, style preferences, or technical constraints'',
             s_template = False\<rparr>]
      else if cat = ''technical''
      then [\<lparr>s_id = ''technical_environment'', s_type = ''enhancement'',
             s_category = ''technical'', s_priority = 75,
             s_title = ''Specify technical environment'',
             s_description = ''Include programming language, framework, or platform details'',
             s_example = Some ''Mention: language version, dependencies, deployment environment, or performance requirements'',
             s_template = False\<rparr>]
      else [])"

definition getTemplateSuggestions :: "string \<Rightarrow> string \<Rightarrow> analyzerSuggestion list" where
  "getTemplateSuggestions cat text =
     [\<lparr>s_id = ''template_structured'', s_type = ''template'', s_category = ''structure'',
       s_priority = 50, s_title = ''Use structured prompt template'',
       s_description = ''Apply a proven template structure for better results'',
       s_example = None, s_template = True\<rparr>]"

text \<open>
  \<open>Array.prototype.sort\<close> with a comparison function that is a total preorder: the
  sorted list, elements that compare equal in their old order. \<open>before a b\<close> says that
  \<open>a\<close> does not go after \<open>b\<close>, that is \<open>compare(a, b) \<le> 0\<close>.
\<close>

fun insertSorted :: "('a \<Rightarrow> 'a \<Rightarrow> bool) \<Rightarrow> 'a \<Rightarrow> 'a list \<Rightarrow> 'a list" where
  "insertSorted notAfter x [] = [x]"
| "insertSorted notAfter x (y # ys) =
     (if notAfter x y then x # y # ys else y # insertSorted notAfter x ys)"

definition sortJS :: "('a \<Rightarrow> 'a \<Rightarrow> bool) \<Rightarrow> 'a list \<Rightarrow> 'a list" where
  "sortJS notAfter xs = foldr (insertSorted notAfter) xs []"

definition generateSuggestions :: "string \<Rightarrow> analyzerSuggestion list" where
  "generateSuggestions text =
     (let is = identifyIssues text;
          cat = categorizePrompt text;
          fixes = map (\<lambda>i. \<lparr>s_id = ''fix_'' @ i_type i, s_type = ''improvement'',
                              s_category = i_type i,
                              s_priority = getSeverityPriority (i_severity i),
                              s_title = i_message i, s_description = i_suggestion i,
                              s_example = Some (getExampleForIssue (i_type i) text),
                              s_template = False\<rparr>) is
      in sortJS (\<lambda>a b. s_priority b \<le> s_priority a)
           (fixes @ getCategorySpecificSuggestions cat text @ getTemplateSuggestions cat text))"

subsection \<open>analyze\<close>

definition createEmptyAnalysis :: analysis where
  "createEmptyAnalysis =
     \<lparr>originalText = [], metrics = None, issues = [], suggestions = [], score = 0,
      category = ''general''\<rparr>"

text \<open>
  \<open>analyze\<close>, on any JavaScript value. The guard \<open>!text || typeof text !== 'string'\<close>
  lets only a non-empty string pass. The callback \<open>onAnalysisComplete\<close> is the caller's
  and is not modelled.
\<close>

fun analyze :: "jsval \<Rightarrow> analysis" where
  "analyze (JStr text) =
     (if text = [] then createEmptyAnalysis
      else \<lparr>originalText = text,
             metrics = Some (calculateMetrics text),
             issues = identifyIssues text,
             suggestions = generateSuggestions text,
             score = calculateScore (calculateMetrics text) (identifyIssues text),
             category = categorizePrompt text\<rparr>)"
| "analyze v = createEmptyAnalysis"


section \<open>Prompt enhancer\<close>

text \<open>
  The class \<open>PromptEnhancer\<close>. Its methods \<open>generateSuggestions\<close>, \<open>getTemplateSuggestions\<close>
  and \<open>applyTemplate\<close> share their names with methods of the analyzer and of the template
  manager; here they carry the prefix \<open>enhancer_\<close>.
\<close>

text \<open>\<open>this.strategies\<close>.\<close>

definition CONTEXT_ADDITION :: string where
  "CONTEXT_ADDITION = ''context_addition''"

definition ROLE_DEFINITION :: string where
  "ROLE_DEFINITION = ''role_definition''"

definition FORMAT_SPECIFICATION :: string where
  "FORMAT_SPECIFICATION = ''format_specification''"

definition SPECIFICITY_BOOST :: string where
  "SPECIFICITY_BOOST = ''specificity_boost''"

definition STRUCTURE_IMPROVEMENT :: string where
  "STRUCTURE_IMPROVEMENT = ''structure_improvement''"

definition TEMPLATE_APPLICATION :: string where
  "TEMPLATE_APPLICATION = ''template_application''"

text \<open>
  A suggestion object of the enhancer. The fields after \<open>description\<close> are set on some
  kinds of suggestion only.
\<close>

record enhancement =
  e_id :: string
  e_type :: string
  e_category :: string
  e_priority :: nat
  e_title :: string
  e_description :: string
  e_originalIssue :: "issue option"
  e_template :: "template option"
  e_previewText :: "string option"
  e_action :: "string option"
  e_enhancementType :: "string option"

text \<open>The \<open>options\<close> argument of \<open>enhance\<close>; a field that is not given is \<open>None\<close>.\<close>

record enhanceOptions =
  o_context :: "string option"
  o_role :: "string option"
  o_format :: "string option"
  o_template :: "template option"

text \<open>\<open>value || fallback\<close> for an optional string: the empty string is falsy too.\<close>

definition orElse :: "string option \<Rightarrow> string \<Rightarrow> string" where
  "orElse v fallback = (case v of None \<Rightarrow> fallback | Some s \<Rightarrow> if s = [] then fallback else s)"

text \<open>\<open>array.join(sep)\<close>.\<close>

fun joinWith :: "string \<Rightarrow> string list \<Rightarrow> string" where
  "joinWith sep [] = []"
| "joinWith sep [x] = x"
| "joinWith sep (x # y # ys) = x @ sep @ joinWith sep (y # ys)"

text \<open>
  \<open>s.replace(pat, rep)\<close> with a string pattern: the first occurrence only. The replacement
  texts it is used with hold no \<open>$\<close>.
\<close>

fun replaceFirst :: "string \<Rightarrow> string \<Rightarrow> string \<Rightarrow> string" where
  "replaceFirst pat rep [] = []"
| "replaceFirst pat rep (c # cs) =
     (if startsWith pat (c # cs) then rep @ drop (length pat) (c # cs)
      else c # replaceFirst pat rep cs)"

text \<open>\<open>text.split(/[.!?]+/).filter(s => s.trim())\<close>.\<close>

definition sentencesOf :: "string \<Rightarrow> string list" where
  "sentencesOf text = filter (\<lambda>s. trim s \<noteq> []) (splitOn isSentenceEnd text)"

subsection \<open>Inferring a role and a domain\<close>

definition inferRole :: "string \<Rightarrow> string" where
  "inferRole text =
     (let lowerText = toLowerCase text
      in if includesJS ''code'' lowerText \<or> includesJS ''program'' lowerText
            \<or> includesJS ''develop'' lowerText
         then ''an experienced software developer''
         else if includesJS ''design'' lowerText \<or> includesJS ''ui'' lowerText
                 \<or> includesJS ''ux'' lowerText
         then ''a professional designer''
         else if includesJS ''business'' lowerText \<or> includesJS ''strategy'' lowerText
                 \<or> includesJS ''market'' lowerText
         then ''a business consultant''
         else if includesJS ''write'' lowerText \<or> includesJS ''content'' lowerText
                 \<or> includesJS ''blog'' lowerText
         then ''a professional writer''
         else if includesJS ''analyze'' lowerText \<or> includesJS ''data'' lowerText
                 \<or> includesJS ''research'' lowerText
         then ''a data analyst''
         else ''an expert in the relevant field'')"

definition inferDomain :: "string \<Rightarrow> string" where
  "inferDomain text =
     (let lowerText = toLowerCase text
      in if includesJS ''code'' lowerText \<or> includesJS ''programming'' lowerText
         then ''software development''
         else if includesJS ''design'' lowerText \<or> includesJS ''ui'' lowerText
         then ''design''
         else if includesJS ''business'' lowerText \<or> includesJS ''marketing'' lowerText
         then ''business''
         else if includesJS ''data'' lowerText \<or> includesJS ''analysis'' lowerText
         then ''data analysis''
         else if includesJS ''writing'' lowerText \<or> includesJS ''content'' lowerText
         then ''content creation''
         else ''general problem-solving'')"

subsection \<open>The transformations of \<open>enhance\<close>\<close>

text \<open>
  \<open>addContext\<close>. \<open>rnd\<close> is the value of \<open>Math.random()\<close>, a number from 0 up to but not
  including 1; an index outside the array would read \<open>undefined\<close>.
\<close>

definition contextPrefixes :: "string list" where
  "contextPrefixes =
     [''Given the context of'', ''In the situation where'', ''Considering that'',
      ''With the background that'']"

definition addContext :: "string \<Rightarrow> enhanceOptions \<Rightarrow> real \<Rightarrow> string" where
  "addContext text options rnd =
     (let ctx = orElse (o_context options) ''a typical use case'';
          i = nat \<lfloor>rnd * real (length contextPrefixes)\<rfloor>;
          pre = (if 0 \<le> rnd \<and> i < length contextPrefixes then contextPrefixes ! i
                 else ''undefined'')
      in pre @ '' '' @ ctx @ '', '' @ text)"

definition defineRole :: "string \<Rightarrow> enhanceOptions \<Rightarrow> string" where
  "defineRole text options =
     (let role = orElse (o_role options) (inferRole text)
      in ''Act as '' @ role @ ''. '' @ text)"

definition specifyFormat :: "string \<Rightarrow> enhanceOptions \<Rightarrow> string" where
  "specifyFormat text options =
     (let fmt = orElse (o_format options) ''a clear, well-structured response''
      in text @ [CHR 0x0A, CHR 0x0A] @ ''Please provide your response as '' @ fmt @ ''.'')"

text \<open>
  \<open>boostSpecificity\<close>: the replacements are applied one after the other, in the order of
  the object literal, each as \<open>/\bword\b/gi\<close>.
\<close>

definition replacements :: "(string \<times> string) list" where
  "replacements =
     [(''help'', ''provide detailed guidance on''),
      (''info'', ''comprehensive information about''),
      (''explain'', ''explain in detail with examples''),
      (''how'', ''what are the step-by-step instructions for''),
      (''what'', ''what specifically''),
      (''general'', ''specific and detailed''),
      (''basic'', ''comprehensive''),
      (''simple'', ''detailed yet clear'')]"

definition boostSpecificity :: "string \<Rightarrow> enhanceOptions \<Rightarrow> string" where
  "boostSpecificity text options =
     foldl (\<lambda>enhanced gs. replaceWordsCI [fst gs] (snd gs) enhanced) text replacements"

text \<open>\<open>groupSentencesIntoSections\<close>: the contents of the two sections.\<close>

definition groupSentencesIntoSections :: "string list \<Rightarrow> (string \<times> string) list" where
  "groupSentencesIntoSections sentences =
     (let half = nat \<lceil>real (length sentences) / 2\<rceil>
      in [(''context'', joinWith ''. '' (take half sentences) @ ''.''),
          (''request'', joinWith ''. '' (drop half sentences) @ ''.'')])"

definition sectionText :: "string \<times> string \<Rightarrow> string" where
  "sectionText sec =
     (if fst sec = ''context'' then ''**Context:**'' @ [CHR 0x0A] @ snd sec @ [CHR 0x0A, CHR 0x0A]
      else if fst sec = ''request''
      then ''**Request:**'' @ [CHR 0x0A] @ snd sec @ [CHR 0x0A, CHR 0x0A]
      else if fst sec = ''requirements''
      then ''**Requirements:**'' @ [CHR 0x0A] @ snd sec @ [CHR 0x0A, CHR 0x0A]
      else snd sec @ [CHR 0x0A, CHR 0x0A])"

definition improveStructure :: "string \<Rightarrow> enhanceOptions \<Rightarrow> string" where
  "improveStructure text options =
     (let sentences = sentencesOf text
      in if length sentences \<le> 2 then text
         else trim (foldl (\<lambda>structured sec. structured @ sectionText sec) []
                      (groupSentencesIntoSections sentences)))"

text \<open>\<open>applyTemplate\<close> of the enhancer: \<open>template.content.replace(/\{prompt\}/g, text)\<close>.\<close>

definition enhancer_applyTemplate :: "string \<Rightarrow> enhanceOptions \<Rightarrow> string" where
  "enhancer_applyTemplate text options =
     (case o_template options of
        None \<Rightarrow> text
      | Some t \<Rightarrow> replaceToken ''prompt'' text (t_content t))"

definition generalEnhancement :: "string \<Rightarrow> enhanceOptions \<Rightarrow> string" where
  "generalEnhancement text options =
     (let enhanced0 = text;
          enhanced1 =
            (if \<not> includesJS ''please'' (toLowerCase text)
                \<and> \<not> includesJS ''thank'' (toLowerCase text)
             then ''Please '' @ toLowerCase enhanced0 else enhanced0);
          enhanced2 =
            (if \<not> includesJS ''specific'' (toLowerCase text)
                \<and> \<not> includesJS ''detail'' (toLowerCase text)
             then enhanced1 @ '' Please be specific and provide detailed information.''
             else enhanced1)
      in enhanced2)"

text \<open>
  \<open>enhance\<close>: the \<open>switch\<close> on the enhancement type, which compares with \<open>===\<close>; the
  type can be any value, and only a string equal to a strategy selects its case.
\<close>

definition enhance :: "string \<Rightarrow> jsval \<Rightarrow> enhanceOptions \<Rightarrow> real \<Rightarrow> string" where
  "enhance text enhancementType options rnd =
     (if enhancementType = JStr CONTEXT_ADDITION then addContext text options rnd
      else if enhancementType = JStr ROLE_DEFINITION then defineRole text options
      else if enhancementType = JStr FORMAT_SPECIFICATION then specifyFormat text options
      else if enhancementType = JStr SPECIFICITY_BOOST then boostSpecificity text options
      else if enhancementType = JStr STRUCTURE_IMPROVEMENT then improveStructure text options
      else if enhancementType = JStr TEMPLATE_APPLICATION
      then enhancer_applyTemplate text options
      else generalEnhancement text options)"

subsection \<open>Suggestions for the issues\<close>

definition generateLengthFix :: "string \<Rightarrow> issue \<Rightarrow> string" where
  "generateLengthFix text i =
     (if length text < 15
      then ''I need help with '' @ text
           @ ''. Could you please provide detailed guidance including background information, step-by-step instructions, and practical examples?''
      else if length text > 2000
      then joinWith ''. '' (take 3 (sentencesOf text))
           @ ''. Please provide a comprehensive response.''
      else text)"

definition generateSpecificityFix :: "string \<Rightarrow> string" where
  "generateSpecificityFix text =
     replaceWordsCI [''help'', ''explain'', ''tell me''] ''provide detailed guidance on'' text
     @ '' Please include specific examples, step-by-step instructions, and practical applications.''"

definition generateContextAddition :: "string \<Rightarrow> string" where
  \<open>generateContextAddition text =
     ''Background: I'm working on a project where [provide your specific situation]. ''\<close>

definition generateRoleDefinition :: "analysis \<Rightarrow> string" where
  "generateRoleDefinition a = ''Act as '' @ inferRole (originalText a) @ ''. ''"

definition generateFormatSpecification :: "string \<Rightarrow> string" where
  "generateFormatSpecification text =
     [CHR 0x0A, CHR 0x0A]
     @ ''Please format your response with clear headings, bullet points for key information, and practical examples.''"

definition getIssuePriority :: "issue \<Rightarrow> nat" where
  "getIssuePriority i =
     (if i_severity i = ''high'' then 90
      else if i_severity i = ''medium'' then 60
      else 30)"

text \<open>\<open>createEnhancementForIssue\<close>; \<open>now\<close> is \<open>Date.now()\<close>.\<close>

definition createEnhancementForIssue :: "issue \<Rightarrow> analysis \<Rightarrow> nat \<Rightarrow> enhancement" where
  "createEnhancementForIssue i a now =
     (let baseEnhancement =
            \<lparr>e_id = ''enhance_'' @ i_type i @ ''_'' @ digitsOf now,
             e_type = ''issue_fix'', e_category = i_type i, e_priority = getIssuePriority i,
             e_title = ''Fix: '' @ i_message i, e_description = i_suggestion i,
             e_originalIssue = Some i, e_template = None, e_previewText = None,
             e_action = None, e_enhancementType = None\<rparr>
      in if i_type i = ''length''
         then baseEnhancement\<lparr>e_enhancementType := Some STRUCTURE_IMPROVEMENT,
                e_previewText := Some (generateLengthFix (originalText a) i),
                e_action := Some ''replace''\<rparr>
         else if i_type i = ''vagueness''
         then baseEnhancement\<lparr>e_enhancementType := Some SPECIFICITY_BOOST,
                e_previewText := Some (generateSpecificityFix (originalText a)),
                e_action := Some ''replace''\<rparr>
         else if i_type i = ''context''
         then baseEnhancement\<lparr>e_enhancementType := Some CONTEXT_ADDITION,
                e_previewText := Some (generateContextAddition (originalText a)),
                e_action := Some ''prefix''\<rparr>
         else if i_type i = ''role''
         then baseEnhancement\<lparr>e_enhancementType := Some ROLE_DEFINITION,
                e_previewText := Some (generateRoleDefinition a),
                e_action := Some ''prefix''\<rparr>
         else if i_type i = ''format''
         then baseEnhancement\<lparr>e_enhancementType := Some FORMAT_SPECIFICATION,
                e_previewText := Some (generateFormatSpecification (originalText a)),
                e_action := Some ''suffix''\<rparr>
         else baseEnhancement)"

subsection \<open>Suggestions from templates\<close>

text \<open>
  \<open>this.templateCategories\<close> and \<open>mapCategoryToTemplate\<close>, on the categories that
  \<open>categorizePrompt\<close> returns and on any other string that is not the name of a property
  every object inherits (such as \<open>toString\<close>), for which \<open>mapping[category]\<close> is
  \<open>undefined\<close>.
\<close>

definition mapCategoryToTemplate :: "string \<Rightarrow> string" where
  "mapCategoryToTemplate cat =
     (if cat = ''question'' then ''general''
      else if cat = ''instruction'' then ''general''
      else if cat = ''analysis'' then ''analysis''
      else if cat = ''explanation'' then ''academic''
      else if cat = ''technical'' then ''technical''
      else if cat = ''data'' then ''analysis''
      else ''general'')"

text \<open>
  \<open>getTemplatesForCategory\<close>. The first argument is \<open>this.templates.categories\<close>, the
  templates of each category; it is \<open>None\<close> when the enhancer was built without it.
\<close>

definition getTemplatesForCategory ::
    "(string \<rightharpoonup> template list) option \<Rightarrow> string \<Rightarrow> template list" where
  "getTemplatesForCategory cats cat =
     (case cats of
        None \<Rightarrow> []
      | Some m \<Rightarrow> (case m cat of None \<Rightarrow> [] | Some ts \<Rightarrow> ts))"

definition calculateTemplatePriority :: "template \<Rightarrow> analysis \<Rightarrow> nat" where
  "calculateTemplatePriority t a =
     (let p0 = (case t_priority t of None \<Rightarrow> 50 | Some p \<Rightarrow> if p = 0 then 50 else p);
          p1 = (if score a < 50 then p0 + 20 else p0);
          p2 = foldl (\<lambda>p i. case t_addresses t of
                               None \<Rightarrow> p
                             | Some ad \<Rightarrow> if i_type i \<in> set ad then p + 15 else p)
                 p1 (issues a)
      in min 100 p2)"

definition applyTemplateToText :: "string \<Rightarrow> template \<Rightarrow> string" where
  "applyTemplateToText text t =
     (if t_content t = [] then text
      else replaceToken ''requirements'' ''[Your specific requirements here]''
             (replaceToken ''context'' ''[Your specific context here]''
                (replaceToken ''prompt'' text (t_content t))))"

definition enhancer_getTemplateSuggestions ::
    "(string \<rightharpoonup> template list) option \<Rightarrow> analysis \<Rightarrow> enhancement list" where
  "enhancer_getTemplateSuggestions cats a =
     map (\<lambda>t. \<lparr>e_id = ''template_'' @ t_id t, e_type = ''template'', e_category = ''template'',
               e_priority = calculateTemplatePriority t a,
               e_title = ''Apply '' @ t_name t @ '' Template'',
               e_description = t_description t,
               e_originalIssue = None, e_template = Some t,
               e_previewText = Some (applyTemplateToText (originalText a) t),
               e_action = Some ''replace'',
               e_enhancementType = Some TEMPLATE_APPLICATION\<rparr>)
       (getTemplatesForCategory cats (mapCategoryToTemplate (category a)))"

subsection \<open>Strategic suggestions\<close>

definition addStrategicContext :: "string \<Rightarrow> analysis \<Rightarrow> string" where
  \<open>addStrategicContext text a =
     replaceFirst ''{project}'' ''an important task''
       (replaceFirst ''{role}'' ''professional''
          (replaceFirst ''{purpose}'' ''a project''
             (replaceFirst ''{objective}'' ''detailed guidance''
                (replaceFirst ''{domain}'' (inferDomain text)
                   ''Context: I'm working on {domain} and need {objective}. ''))))\<close>

definition restructurePrompt :: "string \<Rightarrow> string" where
  "restructurePrompt text =
     (let sentences = sentencesOf text;
          third = nat \<lceil>real (length sentences) / 3\<rceil>;
          twoThirds = nat \<lceil>2 * real (length sentences) / 3\<rceil>;
          ctx = take third sentences;
          request = drop third (take twoThirds sentences);
          requirements = drop twoThirds sentences
      in (if length ctx > 0
          then ''**Context:**'' @ [CHR 0x0A] @ joinWith ''. '' ctx @ ''.'' @ [CHR 0x0A, CHR 0x0A]
          else [])
         @ (if length request > 0
            then ''**Request:**'' @ [CHR 0x0A] @ joinWith ''. '' request @ ''.''
                 @ [CHR 0x0A, CHR 0x0A]
            else [])
         @ (if length requirements > 0
            then ''**Requirements:**'' @ [CHR 0x0A] @ joinWith ''. '' requirements @ ''.''
            else []))"

definition addExpertRole :: "string \<Rightarrow> analysis \<Rightarrow> string" where
  "addExpertRole text a = ''Act as '' @ inferRole text @ ''. ''"

text \<open>
  \<open>metrics.field > bound\<close>, where \<open>metrics\<close> may be the empty object: \<open>undefined > bound\<close>
  is false.
\<close>

definition metricAbove :: "metrics option \<Rightarrow> (metrics \<Rightarrow> nat) \<Rightarrow> nat \<Rightarrow> bool" where
  "metricAbove m field bound = (case m of None \<Rightarrow> False | Some x \<Rightarrow> field x > bound)"

definition getStrategicEnhancements :: "analysis \<Rightarrow> enhancement list" where
  "getStrategicEnhancements a =
     (let text = originalText a;
          m = metrics a
      in (if score a < 60 \<and> metricAbove m wordCount 10
          then [\<lparr>e_id = ''strategic_context'', e_type = ''strategic'', e_category = ''context'',
                 e_priority = 70, e_title = ''Add Strategic Context'',
                 e_description = ''Provide background information to improve response quality'',
                 e_originalIssue = None, e_template = None,
                 e_previewText = Some (addStrategicContext text a),
                 e_action = Some ''prefix'',
                 e_enhancementType = Some CONTEXT_ADDITION\<rparr>]
          else [])
         @ (if metricAbove m wordCount 100 \<and> metricAbove m sentenceCount 5
            then [\<lparr>e_id = ''strategic_structure'', e_type = ''strategic'',
                   e_category = ''structure'', e_priority = 60,
                   e_title = ''Improve Structure'',
                   e_description = ''Organize prompt with clear sections and bullet points'',
                   e_originalIssue = None, e_template = None,
                   e_previewText = Some (restructurePrompt text),
                   e_action = Some ''replace'',
                   e_enhancementType = Some STRUCTURE_IMPROVEMENT\<rparr>]
            else [])
         @ (if metricAbove m complexityScore 50 \<and> \<not> includesJS ''act as'' (toLowerCase text)
            then [\<lparr>e_id = ''strategic_role'', e_type = ''strategic'', e_category = ''role'',
                   e_priority = 65, e_title = ''Define Expert Role'',
                   e_description = ''Specify what type of expert should respond'',
                   e_originalIssue = None, e_template = None,
                   e_previewText = Some (addExpertRole text a),
                   e_action = Some ''prefix'',
                   e_enhancementType = Some ROLE_DEFINITION\<rparr>]
            else []))"

subsection \<open>All suggestions, in order\<close>

definition typeOrder :: "string \<Rightarrow> nat" where
  "typeOrder ty =
     (if ty = ''issue_fix'' then 3 else if ty = ''strategic'' then 2
      else if ty = ''template'' then 1 else 0)"

text \<open>
  \<open>prioritizeSuggestions\<close>: higher priority first, then the higher rank of the type;
  the comparison function is at most zero exactly when \<open>a\<close> may stay before \<open>b\<close>.
\<close>

definition prioritizeSuggestions :: "enhancement list \<Rightarrow> enhancement list" where
  "prioritizeSuggestions xs =
     sortJS (\<lambda>a b. if e_priority b \<noteq> e_priority a then e_priority b \<le> e_priority a
                    else typeOrder (e_type b) \<le> typeOrder (e_type a)) xs"

text \<open>
  \<open>generateSuggestions\<close> of the enhancer (the specification's \<open>buildSuggestions\<close>). The
  callback \<open>onSuggestionsReady\<close> is the caller's and is not modelled.
\<close>

definition enhancer_generateSuggestions ::
    "(string \<rightharpoonup> template list) option \<Rightarrow> analysis \<Rightarrow> nat \<Rightarrow> enhancement list" where
  "enhancer_generateSuggestions cats a now =
     prioritizeSuggestions
       (map (\<lambda>i. createEnhancementForIssue i a now) (issues a)
        @ enhancer_getTemplateSuggestions cats a
        @ getStrategicEnhancements a)"

text \<open>
  For the statements below: does the list hold a suggestion of type \<open>strategic\<close> with
  the given enhancement type?
\<close>

definition hasStrategic :: "string \<Rightarrow> enhancement list \<Rightarrow> bool" where
  "hasStrategic ty xs =
     list_ex (\<lambda>e. e_type e = ''strategic'' \<and> e_enhancementType e = Some ty) xs"

text \<open>
  Inputs to run the functions on: an \<open>options\<close> object without fields, the analysis
  of a prompt of 120 words in 6 sentences (by its metrics), a prompt that opens with a
  role phrase, and a prompt of two lines, 55 characters long, without a context keyword.
\<close>

definition noOptions :: enhanceOptions where
  "noOptions = \<lparr>o_context = None, o_role = None, o_format = None, o_template = None\<rparr>"

definition longAnalysis :: analysis where
  "longAnalysis =
     \<lparr>originalText = ''Compare the two designs. (and so on, 120 words in 6 sentences)'',
      metrics = Some \<lparr>characterCount = 700, wordCount = 120, sentenceCount = 6,
                       paragraphCount = 1, averageWordsPerSentence = 20,
                       readabilityScore = 50, complexityScore = 60, specificityScore = 10\<rparr>,
      issues = [], suggestions = [], score = 75, category = ''analysis''\<rparr>"

definition roleText :: string where
  "roleText =
     ''You are an expert. Implement and optimize the algorithm, analyze the framework architecture.''"

definition twoLinePrompt :: string where
  "twoLinePrompt = ''Summarise the attached report'' @ [CHR 0x0A] @ ''and keep it under a page.''"

section \<open>Properties of the template store\<close>

lemma getTemplate_topicStore: "getTemplate ''t1'' topicStore = Some topicTemplate"
  by (simp add: getTemplate_def topicStore_def)

lemma getTemplate_topicStore_missing: "getTemplate ''nope'' topicStore = None"
  by (simp add: getTemplate_def topicStore_def)

text \<open>
  C8. Calling \<open>toggleFavorite(id)\<close> twice gives back the store it started from, favourites
  included; after one call the id is a favourite exactly when it was not one before, and
  no other id changes its status.
\<close>

theorem toggleFavorite_twice:
  "toggleFavorite templateId (toggleFavorite templateId s) = s
   \<and> (templateId \<in> favorites (toggleFavorite templateId s)) = (templateId \<notin> favorites s)
   \<and> favorites (toggleFavorite templateId s) - {templateId} = favorites s - {templateId}"
proof (cases "templateId \<in> favorites s")
  case True
  then have "insert templateId (favorites s - {templateId}) = favorites s" by blast
  with True show ?thesis by (simp add: toggleFavorite_def)
next
  case False
  then have "insert templateId (favorites s) - {templateId} = favorites s" by blast
  with False show ?thesis by (simp add: toggleFavorite_def)
qed

text \<open>
  C5. On a template that is not user-created, \<open>updateTemplate\<close> and \<open>deleteTemplate\<close>
  throw the "Cannot modify/delete system templates" error and return the store as it was:
  every field, the object heap included, is unchanged.
\<close>

theorem system_template_immutable:
  assumes "getTemplate templateId s = Some t" and "\<not> t_isUserCreated t"
  shows "updateTemplate templateId updates now s = (Inl CannotModifySystemTemplates, s)
         \<and> deleteTemplate templateId s = (Inl CannotDeleteSystemTemplates, s)"
  using assms by (simp add: updateTemplate_def deleteTemplate_def)

theorem system_template_immutable_witness:
  "getTemplate ''t1'' topicStore = Some topicTemplate \<and> \<not> t_isUserCreated topicTemplate
   \<and> updateTemplate ''t1'' renamePatch 7 topicStore
       = (Inl CannotModifySystemTemplates, topicStore)
   \<and> deleteTemplate ''t1'' topicStore = (Inl CannotDeleteSystemTemplates, topicStore)"
proof -
  have g: "getTemplate ''t1'' topicStore = Some topicTemplate"
    by (rule getTemplate_topicStore)
  have n: "\<not> t_isUserCreated topicTemplate"
    by (simp add: topicTemplate_def)
  from system_template_immutable [OF g n, of renamePatch 7] g n show ?thesis by simp
qed

text \<open>
  C2, as the source has it. \<open>deleteTemplate\<close> on an id that is not in the store returns
  normally, without an error, and leaves the store unchanged.
\<close>

theorem deleteTemplate_missing_is_noop:
  assumes "getTemplate templateId s = None"
  shows "deleteTemplate templateId s = (Inr (), s)"
  using assms by (simp add: deleteTemplate_def)

theorem deleteTemplate_missing_is_noop_witness:
  "getTemplate ''nope'' topicStore = None
   \<and> deleteTemplate ''nope'' topicStore = (Inr (), topicStore)"
  using deleteTemplate_missing_is_noop [OF getTemplate_topicStore_missing]
    getTemplate_topicStore_missing by simp

text \<open>
  The other two operations that look a template up do end in the not-found error on an
  id that is not in the store, and leave the store unchanged.
\<close>

lemma applyTemplate_updateTemplate_missing:
  assumes "getTemplate templateId s = None"
  shows "applyTemplate templateId originalPrompt variables now s
           = (Inl (TemplateNotFound templateId), s)
       \<and> updateTemplate templateId updates now s = (Inl (TemplateNotFound templateId), s)"
  using assms by (simp add: applyTemplate_def updateTemplate_def)

text \<open>
  C2, as the claim states it, fails: the id \<open>nope\<close> is not in the store, and deleting it
  does not end in the not-found error.
\<close>

theorem deleteTemplate_missing_counterexample:
  "getTemplate ''nope'' topicStore = None
   \<and> fst (deleteTemplate ''nope'' topicStore) \<noteq> Inl (TemplateNotFound ''nope'')
   \<and> fst (deleteTemplate ''nope'' topicStore) = Inr ()"
  by (simp add: deleteTemplate_def getTemplate_topicStore_missing)

subsection \<open>Variable substitution\<close>

lemma startsWith_Nil: "startsWith [] s"
  by (simp add: startsWith_def)

lemma startsWith_Cons_Nil: "\<not> startsWith (a # p) []"
  by (simp add: startsWith_def)

lemma startsWith_Cons_Cons: "startsWith (a # p) (c # cs) = (a = c \<and> startsWith p cs)"
  by (auto simp add: startsWith_def)

lemma identifierKey_chars:
  assumes "identifierKey k"
  shows "CHR ''{'' \<notin> set k" "CHR ''}'' \<notin> set k" "CHR ''['' \<notin> set k" "CHR '']'' \<notin> set k" "CHR ''$'' \<notin> set k"
  using assms by (auto simp: identifierKey_def list_all_iff isWordChar_def)

lemma getSubstitution_plain:
  "CHR ''$'' \<notin> set r \<Longrightarrow> getSubstitution m b a r = r"
  by (induction m b a r rule: getSubstitution.induct) auto

lemma replaceFrom_plain:
  "CHR ''$'' \<notin> set rep \<Longrightarrow> replaceFrom k rep pre s = replaceEvery (token k) rep s"
proof (induction k rep pre s rule: replaceFrom.induct)
  case (1 key replacement preceding)
  then show ?case by simp
next
  case (2 key replacement preceding c cs)
  have len: "length (token key) - Suc 0 = Suc (length key)" by (simp add: token_def)
  have ne: "token key \<noteq> []" by (simp add: token_def)
  show ?case
  proof (cases "startsWith (token key) (c # cs)")
    case True
    with 2 show ?thesis by (simp add: getSubstitution_plain len ne)
  next
    case False
    with 2 show ?thesis by simp
  qed
qed

lemma startsWith_replaceEvery_back:
  assumes "a \<noteq> b" "b \<notin> set q"
  shows "startsWith q (replaceEvery (a # p) (b # r) s) \<Longrightarrow> startsWith q s"
  using assms
proof (induction q arbitrary: s)
  case Nil then show ?case by (simp add: startsWith_Nil)
next
  case (Cons x q)
  note prems = Cons.prems and IH = Cons.IH
  show ?case
  proof (cases s)
    case Nil with prems show ?thesis by simp
  next
    case s: (Cons c cs)
    show ?thesis
    proof (cases "startsWith (a # p) (c # cs)")
      case True
      then have "replaceEvery (a # p) (b # r) (c # cs)
                 = (b # r) @ replaceEvery (a # p) (b # r) (drop (length (a # p) - 1) cs)"
        by simp
      with prems(1) s have "x = b" by (simp add: startsWith_Cons_Cons)
      with prems(3) show ?thesis by simp
    next
      case False
      then have "replaceEvery (a # p) (b # r) (c # cs) = c # replaceEvery (a # p) (b # r) cs"
        by simp
      with prems(1) s have xc: "x = c" and sw: "startsWith q (replaceEvery (a # p) (b # r) cs)"
        by (simp_all add: startsWith_Cons_Cons)
      from prems(3) have "b \<notin> set q" by simp
      from IH[OF sw prems(2) this] xc s show ?thesis by (simp add: startsWith_Cons_Cons)
    qed
  qed
qed

lemma includesJS_append_no_head:
  assumes "a \<notin> set r"
  shows "includesJS (a # p) (r @ x) = includesJS (a # p) x"
  using assms by (induction r) (auto simp: startsWith_Cons_Cons)

lemma replaceEvery_no_occurrence:
  assumes "a \<noteq> b" "b \<notin> set (a # p)" "a \<notin> set (b # r)"
  shows "\<not> includesJS (a # p) (replaceEvery (a # p) (b # r) s)"
proof (induction "a # p" "b # r" s rule: replaceEvery.induct)
  case 1
  then show ?case by simp
next
  case (2 c cs)
  show ?case
  proof (cases "startsWith (a # p) (c # cs)")
    case True
    then have eq: "replaceEvery (a # p) (b # r) (c # cs)
                 = (b # r) @ replaceEvery (a # p) (b # r) (drop (length (a # p) - 1) cs)"
      by simp
    have "\<not> includesJS (a # p) (replaceEvery (a # p) (b # r) (drop (length (a # p) - 1) cs))"
      using 2(1) True by simp
    then show ?thesis
      unfolding eq using includesJS_append_no_head[OF assms(3)] by simp
  next
    case False
    then have eq: "replaceEvery (a # p) (b # r) (c # cs) = c # replaceEvery (a # p) (b # r) cs"
      by simp
    have tl: "\<not> includesJS (a # p) (replaceEvery (a # p) (b # r) cs)"
      using 2(2) False by simp
    have "\<not> startsWith (a # p) (replaceEvery (a # p) (b # r) (c # cs))"
      using startsWith_replaceEvery_back[OF assms(1) assms(2)] False by blast
    then have "\<not> startsWith (a # p) (c # replaceEvery (a # p) (b # r) cs)"
      unfolding eq .
    with tl show ?thesis unfolding eq by simp
  qed
qed

lemma startsWith_decompose: "startsWith p s \<Longrightarrow> s = p @ drop (length p) s"
  by (metis append_take_drop_id startsWith_def)

lemma includesJS_append_right: "includesJS p y \<Longrightarrow> includesJS p (x @ y)"
proof (induction x)
  case Nil then show ?case by simp
next
  case (Cons a x) then show ?case by simp
qed

lemma startsWith_closing_brace:
  assumes "CHR ''}'' \<notin> set v" "CHR ''}'' \<notin> set k"
  shows "startsWith (v @ ''}'') (k @ CHR ''}'' # rest) \<Longrightarrow> v = k"
  using assms
proof (induction v arbitrary: k)
  case Nil
  then show ?case by (cases k) (auto simp: startsWith_Cons_Cons)
next
  case (Cons a v)
  then show ?case by (cases k) (auto simp: startsWith_Cons_Cons)
qed

lemma includesJS_past_token:
  assumes "CHR ''{'' \<notin> set k" "CHR ''}'' \<notin> set k" "CHR ''}'' \<notin> set v" "k \<noteq> v"
    and "includesJS (token v) (token k @ rest)"
  shows "includesJS (token v) rest"
proof -
  have not_here: "\<not> startsWith (token v) (token k @ rest)"
    using startsWith_closing_brace[OF assms(3) assms(2), of rest] assms(4)
    by (auto simp: token_def startsWith_Cons_Cons)
  with assms(5) have "includesJS (token v) (k @ CHR ''}'' # rest)"
    by (simp add: token_def)
  then have "includesJS (token v) (CHR ''}'' # rest)"
    using includesJS_append_no_head[OF assms(1), of "v @ ''}''" "CHR ''}'' # rest"]
    by (simp add: token_def) 
  then show ?thesis by (simp add: token_def startsWith_Cons_Cons)
qed

lemma startsWith_replaceFrom_forward:
  assumes "CHR ''{'' \<notin> set q"
  shows "startsWith q s \<Longrightarrow> startsWith q (replaceFrom k rep pre s)"
  using assms
proof (induction q arbitrary: s pre)
  case Nil then show ?case by (simp add: startsWith_Nil)
next
  case (Cons a q)
  note prems = Cons.prems and IH = Cons.IH
  show ?case
  proof (cases s)
    case Nil with prems show ?thesis by (simp add: startsWith_Cons_Nil)
  next
    case s: (Cons c cs)
    with prems have ac: "a = c" and sw: "startsWith q cs" by (simp_all add: startsWith_Cons_Cons)
    from prems(2) ac have "c \<noteq> CHR ''{''" by auto
    then have "\<not> startsWith (token k) (c # cs)" by (simp add: token_def startsWith_Cons_Cons)
    then have "replaceFrom k rep pre (c # cs) = c # replaceFrom k rep (pre @ [c]) cs" by simp
    moreover from prems(2) have "CHR ''{'' \<notin> set q" by simp
    ultimately show ?thesis using IH[OF sw, of "pre @ [c]"] ac s by (simp add: startsWith_Cons_Cons)
  qed
qed

lemma replaceFrom_keeps_other_token:
  assumes "CHR ''{'' \<notin> set k" "CHR ''}'' \<notin> set k" "CHR ''{'' \<notin> set v" "CHR ''}'' \<notin> set v" "k \<noteq> v"
  shows "includesJS (token v) s \<Longrightarrow> includesJS (token v) (replaceFrom k rep pre s)"
  using assms
proof (induction k rep pre s rule: replaceFrom.induct)
  case (1 key replacement preceding)
  then show ?case by simp
next
  case (2 key replacement preceding c cs)
  note k1 = "2.prems"(2) and k2 = "2.prems"(3) and v1 = "2.prems"(4) and v2 = "2.prems"(5)
    and ne = "2.prems"(6)
  show ?case
  proof (cases "startsWith (token key) (c # cs)")
    case True
    have len: "length (token key) = Suc (Suc (length key))" by (simp add: token_def)
    from startsWith_decompose[OF True] have "c # cs = token key @ drop (length key + 1) cs"
      by (simp add: len)
    with "2.prems"(1) have "includesJS (token v) (token key @ drop (length key + 1) cs)" by simp
    then have "includesJS (token v) (drop (length key + 1) cs)"
      by (rule includesJS_past_token[OF k1 k2 v2 ne])
    from "2.IH"(1)[OF True this k1 k2 v1 v2 ne]
    have "includesJS (token v)
            (replaceFrom key replacement (preceding @ token key) (drop (length key + 1) cs))" .
    then show ?thesis using True by (simp add: includesJS_append_right)
  next
    case False
    then have eq: "replaceFrom key replacement preceding (c # cs)
                   = c # replaceFrom key replacement (preceding @ [c]) cs" by simp
    from "2.prems"(1) consider "startsWith (token v) (c # cs)" | "includesJS (token v) cs"
      by auto
    then show ?thesis
    proof cases
      case 1
      then have c: "c = CHR ''{''" and sw: "startsWith (v @ ''}'') cs"
        by (simp_all add: token_def startsWith_Cons_Cons)
      from v1 have "CHR ''{'' \<notin> set (v @ ''}'')" by simp
      from startsWith_replaceFrom_forward[OF this sw]
      have "startsWith (v @ ''}'') (replaceFrom key replacement (preceding @ [c]) cs)" .
      with c have "startsWith (token v) (c # replaceFrom key replacement (preceding @ [c]) cs)"
        by (simp add: token_def startsWith_Cons_Cons)
      then show ?thesis unfolding eq by simp
    next
      case 2
      from "2.IH"(2)[OF False 2 k1 k2 v1 v2 ne] show ?thesis unfolding eq by simp
    qed
  qed
qed

lemma setProperty_keys: "fst ` set (setProperty ps kv) = insert (fst kv) (fst ` set ps)"
  by (induction ps kv rule: setProperty.induct) auto

lemma foldl_setProperty_keys:
  "fst ` set (foldl setProperty L vars) = fst ` set L \<union> fst ` set vars"
proof (induction vars arbitrary: L)
  case Nil then show ?case by simp
next
  case (Cons x vars)
  have "fst ` set (foldl setProperty (setProperty L x) vars)
        = insert (fst x) (fst ` set L) \<union> fst ` set vars"
    by (simp only: Cons.IH setProperty_keys)
  then show ?case by simp
qed

lemma allVariables_keys:
  "fst ` set (allVariables p vars) = {''prompt'', ''original_prompt''} \<union> fst ` set vars"
  by (simp add: allVariables_def foldl_setProperty_keys)

lemma setProperty_map:
  assumes "\<And>x. fst (f x) = fst x"
  shows "map f (setProperty ps kv) = setProperty (map f ps) (f kv)"
  by (induction ps kv rule: setProperty.induct) (auto simp: assms)

lemma foldl_setProperty_map:
  assumes "\<And>x. fst (f x) = fst x"
  shows "map f (foldl setProperty L vars) = foldl setProperty (map f L) (map f vars)"
  by (induction vars arbitrary: L) (simp_all add: setProperty_map[OF assms])

lemma substituteVariable_withPlaceholder:
  "substituteVariable c (withPlaceholder kv) = substituteVariable c kv"
  by (cases "truthy (snd kv)") (simp_all add: substituteVariable_def withPlaceholder_def)

lemma foldl_substituteVariable_withPlaceholder:
  "foldl substituteVariable c (map withPlaceholder L) = foldl substituteVariable c L"
  by (induction L arbitrary: c) (simp_all add: substituteVariable_withPlaceholder)

lemma withPlaceholder_idem: "withPlaceholder (withPlaceholder kv) = withPlaceholder kv"
  by (simp add: withPlaceholder_def)

lemma allVariables_withPlaceholder:
  "map withPlaceholder (allVariables p (map withPlaceholder vars))
   = map withPlaceholder (allVariables p vars)"
proof -
  have f: "\<And>x. fst (withPlaceholder x) = fst x" by (simp add: withPlaceholder_def)
  show ?thesis
    unfolding allVariables_def foldl_setProperty_map[OF f]
    by (simp add: withPlaceholder_idem comp_def)
qed

lemma applyTemplate_withPlaceholder:
  "fst (applyTemplate i p (map withPlaceholder vars) now s) = fst (applyTemplate i p vars now s)"
proof (cases "getTemplate i s")
  case None then show ?thesis by (simp add: applyTemplate_def)
next
  case (Some t)
  have "foldl substituteVariable (t_content t) (allVariables p (map withPlaceholder vars))
        = foldl substituteVariable (t_content t) (allVariables p vars)"
    using foldl_substituteVariable_withPlaceholder[of "t_content t" "allVariables p (map withPlaceholder vars)"]
      foldl_substituteVariable_withPlaceholder[of "t_content t" "allVariables p vars"]
      allVariables_withPlaceholder[of p vars] by simp
  with Some show ?thesis by (simp add: applyTemplate_def)
qed

lemma substituteVariable_falsy:
  assumes "identifierKey k" "\<not> truthy v"
  shows "substituteVariable c (k, v) = replaceEvery (token k) (CHR ''['' # k @ '']'') c"
    and "\<not> includesJS (token k) (substituteVariable c (k, v))"
proof -
  from identifierKey_chars[OF assms(1)] have d: "CHR ''$'' \<notin> set (CHR ''['' # k @ '']'')" by simp
  show eq: "substituteVariable c (k, v) = replaceEvery (token k) (CHR ''['' # k @ '']'') c"
    using assms(2) by (simp add: substituteVariable_def replaceToken_def replaceFrom_plain[OF d])
  have "\<not> includesJS (CHR ''{'' # (k @ ''}'')) (replaceEvery (CHR ''{'' # (k @ ''}'')) (CHR ''['' # (k @ '']'')) c)"
    using identifierKey_chars[OF assms(1)] by (intro replaceEvery_no_occurrence) auto
  then show "\<not> includesJS (token k) (substituteVariable c (k, v))"
    unfolding eq by (simp add: token_def)
qed

lemma identifierKey_prompt: "identifierKey ''prompt''" "identifierKey ''original_prompt''"
  by (simp_all add: identifierKey_def isWordChar_def isDigit_def)

lemma identifierKey_topic: "identifierKey ''topic''"
  by (simp add: identifierKey_def isWordChar_def isDigit_def)

lemma substituteVariable_keeps_other_token:
  assumes "identifierKey k" "identifierKey v" "k \<noteq> v" "includesJS (token v) c"
  shows "includesJS (token v) (substituteVariable c (k, x))"
  using replaceFrom_keeps_other_token[OF identifierKey_chars(1,2)[OF assms(1)]
      identifierKey_chars(1,2)[OF assms(2)] assms(3) assms(4)]
  by (simp add: substituteVariable_def replaceToken_def)




text \<open>
  A declared variable that is not supplied keeps its token, whatever other variables are
  supplied.
\<close>

lemma foldl_substituteVariable_keeps_token:
  assumes "identifierKey v"
    and "list_all (\<lambda>kv. identifierKey (fst kv) \<and> fst kv \<noteq> v) L"
    and "includesJS (token v) c"
  shows "includesJS (token v) (foldl substituteVariable c L)"
  using assms(2,3)
proof (induction L arbitrary: c)
  case Nil
  then show ?case by simp
next
  case (Cons kv L)
  obtain k x where kv: "kv = (k, x)" by (cases kv)
  from Cons.prems(1) kv have "identifierKey k" and "k \<noteq> v" and
    rest: "list_all (\<lambda>kv. identifierKey (fst kv) \<and> fst kv \<noteq> v) L"
    by simp_all
  then have "includesJS (token v) (substituteVariable c (k, x))"
    using substituteVariable_keeps_other_token[OF _ assms(1) _ Cons.prems(2)] by blast
  from Cons.IH[OF rest this] kv show ?case by simp
qed

lemma applyTemplate_keeps_unsupplied_token:
  assumes "getTemplate templateId s = Some t"
    and "list_all identifierKey (map fst variables)"
    and "identifierKey v" and "v \<notin> fst ` set variables"
    and "v \<noteq> ''prompt''" and "v \<noteq> ''original_prompt''"
    and "includesJS (token v) (t_content t)"
  shows "\<exists>r. fst (applyTemplate templateId originalPrompt variables now s) = Inr r
           \<and> includesJS (token v) r"
proof -
  have keys: "fst ` set (allVariables originalPrompt variables)
              = {''prompt'', ''original_prompt''} \<union> fst ` set variables"
    by (rule allVariables_keys)
  have "list_all (\<lambda>kv. identifierKey (fst kv) \<and> fst kv \<noteq> v)
          (allVariables originalPrompt variables)"
    unfolding list_all_iff
  proof
    fix kv assume "kv \<in> set (allVariables originalPrompt variables)"
    then have "fst kv \<in> {''prompt'', ''original_prompt''} \<union> fst ` set variables"
      using keys by blast
    with assms(2,4,5,6) show "identifierKey (fst kv) \<and> fst kv \<noteq> v"
      by (auto simp: list_all_iff identifierKey_prompt)
  qed
  from foldl_substituteVariable_keeps_token[OF assms(3) this assms(7)] assms(1)
  show ?thesis by (simp add: applyTemplate_def)
qed

text \<open>
  C9, as the source has it. Let the keys of the variables object be identifier-like names
  and its numbers safe integers, and let the object (with the two implicit variables
  merged in) hold the entry \<open>(k, v)\<close> with a falsy value \<open>v\<close>. When the loop reaches that
  entry, every occurrence of \<open>{k}\<close> in the content built so far is replaced by the literal
  text \<open>[k]\<close>, none is left, and the loop goes on with the remaining entries. The returned
  text is the same as when every falsy value is supplied as its placeholder text \<open>[key]\<close>
  in the first place, so it does not depend on which falsy value (empty string, \<open>null\<close>,
  \<open>undefined\<close>, \<open>false\<close>, \<open>0\<close>) was supplied. (A variable that is not supplied at all
  is another case: its token stays as it is.)
\<close>

theorem falsy_value_becomes_placeholder:
  assumes "getTemplate templateId s = Some t"
    and "list_all identifierKey (map fst variables)"
    and "list_all safeValue (map snd variables)"
    and "(k, v) \<in> set (allVariables originalPrompt variables)"
    and "\<not> truthy v"
  shows "(\<exists>pre post.
            allVariables originalPrompt variables = pre @ (k, v) # post
          \<and> fst (applyTemplate templateId originalPrompt variables now s)
            = Inr (foldl substituteVariable
                    (replaceEvery (token k) (CHR ''['' # k @ '']'')
                       (foldl substituteVariable (t_content t) pre)) post)
          \<and> \<not> includesJS (token k)
                (replaceEvery (token k) (CHR ''['' # k @ '']'')
                   (foldl substituteVariable (t_content t) pre)))
       \<and> fst (applyTemplate templateId originalPrompt (map withPlaceholder variables) now s)
         = fst (applyTemplate templateId originalPrompt variables now s)"
proof -
  from assms(4) have "k \<in> fst ` set (allVariables originalPrompt variables)" by force
  then have "k \<in> {''prompt'', ''original_prompt''} \<or> k \<in> set (map fst variables)"
    by (auto simp: allVariables_keys)
  with assms(2) have idk: "identifierKey k"
    by (auto simp: list_all_iff identifierKey_prompt)
  from assms(4) obtain pre post
    where split: "allVariables originalPrompt variables = pre @ (k, v) # post"
    by (auto simp: in_set_conv_decomp)
  let ?c = "foldl substituteVariable (t_content t) pre"
  have step: "substituteVariable ?c (k, v) = replaceEvery (token k) (CHR ''['' # k @ '']'') ?c"
    by (rule substituteVariable_falsy(1)[OF idk assms(5)])
  have gone: "\<not> includesJS (token k) (replaceEvery (token k) (CHR ''['' # k @ '']'') ?c)"
    using substituteVariable_falsy(2)[OF idk assms(5), of ?c] step by simp
  have "fst (applyTemplate templateId originalPrompt variables now s)
        = Inr (foldl substituteVariable (replaceEvery (token k) (CHR ''['' # k @ '']'') ?c) post)"
    using assms(1) split step by (simp add: applyTemplate_def)
  with split gone applyTemplate_withPlaceholder show ?thesis by blast
qed

theorem falsy_value_becomes_placeholder_witness:
  "getTemplate ''t1'' topicStore = Some topicTemplate
   \<and> list_all identifierKey (map fst [(''topic'', JStr [])])
   \<and> list_all safeValue (map snd [(''topic'', JStr [])])
   \<and> (''topic'', JStr []) \<in> set (allVariables ''hello'' [(''topic'', JStr [])])
   \<and> \<not> truthy (JStr [])
   \<and> fst (applyTemplate ''t1'' ''hello'' [(''topic'', JStr [])] 0 topicStore)
     = Inr ''Tell me about [topic].''
   \<and> fst (applyTemplate ''t1'' ''hello'' [(''topic'', JNull)] 0 topicStore)
     = Inr ''Tell me about [topic].''
   \<and> (\<exists>pre post.
          allVariables ''hello'' [(''topic'', JStr [])] = pre @ (''topic'', JStr []) # post
        \<and> fst (applyTemplate ''t1'' ''hello'' [(''topic'', JStr [])] 0 topicStore)
          = Inr (foldl substituteVariable
                  (replaceEvery (token ''topic'') ''[topic]''
                     (foldl substituteVariable (t_content topicTemplate) pre)) post)
        \<and> \<not> includesJS (token ''topic'')
              (replaceEvery (token ''topic'') ''[topic]''
                 (foldl substituteVariable (t_content topicTemplate) pre)))"
proof -
  have g: "getTemplate ''t1'' topicStore = Some topicTemplate" by (rule getTemplate_topicStore)
  have i: "list_all identifierKey (map fst [(''topic'', JStr [])])"
    by (simp add: identifierKey_topic)
  have v: "list_all safeValue (map snd [(''topic'', JStr [])])"
    by (simp add: safeValue_def)
  have m: "(''topic'', JStr []) \<in> set (allVariables ''hello'' [(''topic'', JStr [])])"
    by (simp add: allVariables_def)
  have f: "\<not> truthy (JStr [])" by simp
  have r1: "fst (applyTemplate ''t1'' ''hello'' [(''topic'', JStr [])] 0 topicStore)
            = Inr ''Tell me about [topic].''"
    by (simp add: g applyTemplate_def topicTemplate_def allVariables_def
        substituteVariable_def replaceToken_def token_def startsWith_def)
  have r2: "fst (applyTemplate ''t1'' ''hello'' [(''topic'', JNull)] 0 topicStore)
            = Inr ''Tell me about [topic].''"
    by (simp add: g applyTemplate_def topicTemplate_def allVariables_def
        substituteVariable_def replaceToken_def token_def startsWith_def)
  from falsy_value_becomes_placeholder[OF g i v m f, of 0] g i v m f r1 r2
  show ?thesis by simp
qed

text \<open>
  C9, as the claim states it, fails. Supplied with the empty string, \<open>topic\<close> becomes
  \<open>[topic]\<close>; left out of the variables object, it stays \<open>{topic}\<close>: the two outputs
  differ, so a supplied empty string can be told from a variable that was never resolved.
\<close>

theorem falsy_value_counterexample:
  "getTemplate ''t1'' topicStore = Some topicTemplate
   \<and> \<not> truthy (JStr [])
   \<and> fst (applyTemplate ''t1'' ''hello'' [(''topic'', JStr [])] 0 topicStore)
     = Inr ''Tell me about [topic].''
   \<and> fst (applyTemplate ''t1'' ''hello'' [] 0 topicStore) = Inr ''Tell me about {topic}.''
   \<and> fst (applyTemplate ''t1'' ''hello'' [(''topic'', JStr [])] 0 topicStore)
     \<noteq> fst (applyTemplate ''t1'' ''hello'' [] 0 topicStore)"
  by (simp add: getTemplate_topicStore applyTemplate_def topicTemplate_def allVariables_def
      substituteVariable_def replaceToken_def token_def startsWith_def)

section \<open>Properties of the analyzer\<close>

lemma foldl_penalize:
  "foldl penalize s is
   = s - 15 * real (countSeverity ''high'' is) - 10 * real (countSeverity ''medium'' is)
       - 5 * real (countSeverity ''low'' is)"
proof (induction "is" arbitrary: s)
  case Nil
  then show ?case by (simp add: countSeverity_def)
next
  case (Cons i "is")
  have "foldl penalize s (i # is)
        = penalize s i - 15 * real (countSeverity ''high'' is)
            - 10 * real (countSeverity ''medium'' is) - 5 * real (countSeverity ''low'' is)"
    by (simp add: Cons.IH)
  also have "\<dots> = s - 15 * real (countSeverity ''high'' (i # is))
                    - 10 * real (countSeverity ''medium'' (i # is))
                    - 5 * real (countSeverity ''low'' (i # is))"
    by (simp add: penalize_def countSeverity_def)
  finally show ?case .
qed

lemma calculateScore_specScore: "calculateScore m is = specScore m is"
proof -
  have len: "(if wordCount m \<ge> fst optimalLength \<and> wordCount m \<le> snd optimalLength
              then (50 :: real) + 20
              else if wordCount m < fst optimalLength then 50 - 15 else 50 - 10)
             = 50 + lengthBonus (wordCount m)"
    by (simp add: optimalLength_def lengthBonus_def)
  show ?thesis
    unfolding calculateScore_def specScore_def Let_def len foldl_penalize
    by (simp add: algebra_simps)
qed

lemma calculateScore_range: "0 \<le> calculateScore m is \<and> calculateScore m is \<le> 100"
  by (simp add: calculateScore_def Let_def)

text \<open>
  C3. For a non-empty string the analysis carries metrics, and its score is the rounded
  and clamped sum of the specification (base 50, the length bonus, 15, 10 and 5 off for
  each high, medium and low issue, 0.3 times the specificity score and 0.1 times the
  readability score); it lies between 0 and 100. Doubles are taken as real numbers.
\<close>

theorem analyze_score:
  assumes "text \<noteq> []"
  shows "\<exists>m. metrics (analyze (JStr text)) = Some m
           \<and> score (analyze (JStr text)) = specScore m (issues (analyze (JStr text)))
           \<and> 0 \<le> score (analyze (JStr text)) \<and> score (analyze (JStr text)) \<le> 100"
  using assms calculateScore_range[of "calculateMetrics text" "identifyIssues text"]
  by (simp add: calculateScore_specScore)

theorem analyze_score_witness:
  "''hi'' \<noteq> []
   \<and> (\<exists>m. metrics (analyze (JStr ''hi'')) = Some m
          \<and> score (analyze (JStr ''hi'')) = specScore m (issues (analyze (JStr ''hi'')))
          \<and> 0 \<le> score (analyze (JStr ''hi'')) \<and> score (analyze (JStr ''hi'')) \<le> 100)
   \<and> score (analyze (JStr ''hi'')) = 30"
proof -
  have ne: "''hi'' \<noteq> []" by simp
  have sc: "score (analyze (JStr ''hi'')) = 30" by code_simp
  from analyze_score[OF ne] ne sc show ?thesis by blast
qed

text \<open>
  C4. On the empty string and on every value that is not a string, \<open>analyze\<close> returns
  the empty analysis: score 0, category \<open>general\<close>, no issues, no suggestions, the empty
  metrics object. (No statement of the analyzer throws, and \<open>analyze\<close> has a result for
  every value.)
\<close>

theorem analyze_guard:
  assumes "v = JStr [] \<or> (\<forall>s. v \<noteq> JStr s)"
  shows "analyze v = createEmptyAnalysis
         \<and> score (analyze v) = 0 \<and> category (analyze v) = ''general''
         \<and> issues (analyze v) = [] \<and> suggestions (analyze v) = []
         \<and> metrics (analyze v) = None"
proof -
  have "analyze v = createEmptyAnalysis"
    using assms by (cases v) auto
  then show ?thesis by (simp add: createEmptyAnalysis_def)
qed

theorem analyze_guard_witness:
  "(\<forall>s. JNull \<noteq> JStr s)
   \<and> analyze JNull = createEmptyAnalysis
   \<and> analyze (JStr []) = createEmptyAnalysis
   \<and> analyze (JNum 7) = createEmptyAnalysis
   \<and> score (analyze JNull) = 0 \<and> category (analyze JNull) = ''general''
   \<and> issues (analyze JNull) = [] \<and> suggestions (analyze JNull) = []
   \<and> metrics (analyze JNull) = None"
  using analyze_guard[of JNull] analyze_guard[of "JStr []"] analyze_guard[of "JNum 7"]
  by simp

subsection \<open>The context issue\<close>

lemma of_char_toLowerChar:
  "(of_char (toLowerChar c) :: nat)
   = (if (65 \<le> (of_char c :: nat) \<and> (of_char c :: nat) \<le> 90)
         \<or> (192 \<le> (of_char c :: nat) \<and> (of_char c :: nat) \<le> 222 \<and> (of_char c :: nat) \<noteq> 215)
      then of_char c + 32 else of_char c)"
  by (auto simp: toLowerChar_def Let_def)

lemma isLineTerminator_toLowerChar: "isLineTerminator (toLowerChar c) = isLineTerminator c"
  by (auto simp: isLineTerminator_def Let_def of_char_toLowerChar)

lemma no_terminator_toLowerCase:
  "list_all (\<lambda>c. \<not> isLineTerminator c) (toLowerCase s) = list_all (\<lambda>c. \<not> isLineTerminator c) s"
  by (induction s) (simp_all add: toLowerCase_def isLineTerminator_toLowerChar)

lemma searchLineFrom_one_line:
  "list_all (\<lambda>c. \<not> isLineTerminator c) s \<Longrightarrow> searchLineFrom P w s = searchFrom P w s"
  by (induction s arbitrary: w) simp_all

lemma lacksOnOneLine_one_line:
  "list_all (\<lambda>c. \<not> isLineTerminator c) s
   \<Longrightarrow> lacksOnOneLine P s = (\<not> search P s \<and> s \<noteq> [])"
  by (auto simp: lacksOnOneLine_def search_def searchLineFrom_one_line)

lemma lacksOnOneLine_terminator:
  "\<not> list_all (\<lambda>c. \<not> isLineTerminator c) s \<Longrightarrow> \<not> lacksOnOneLine P s"
  by (simp add: lacksOnOneLine_def)

lemma context_issue_iff:
  "list_ex (\<lambda>i. i_type i = ''context'') (identifyIssues text)
   = (noContext text \<and> length text > 30)"
  by (simp add: identifyIssues_def)

text \<open>
  On a text of one line, the context issue is reported exactly when the text holds no
  context keyword and is longer than 30 characters.
\<close>

lemma context_issue_one_line:
  assumes "list_all (\<lambda>c. \<not> isLineTerminator c) text"
  shows "list_ex (\<lambda>i. i_type i = ''context'') (identifyIssues text)
         = (\<not> search contextWordHere (toLowerCase text) \<and> length text > 30)"
proof -
  have "list_all (\<lambda>c. \<not> isLineTerminator c) (toLowerCase text)"
    using assms by (simp add: no_terminator_toLowerCase)
  then have "noContext text = (\<not> search contextWordHere (toLowerCase text) \<and> toLowerCase text \<noteq> [])"
    by (simp add: noContext_def lacksOnOneLine_one_line)
  moreover have "length text > 30 \<Longrightarrow> toLowerCase text \<noteq> []"
    by (auto simp: toLowerCase_def)
  ultimately show ?thesis
    unfolding context_issue_iff by blast
qed

text \<open>On a text with a line terminator, the context issue is never reported.\<close>

lemma context_issue_multi_line:
  assumes "\<not> list_all (\<lambda>c. \<not> isLineTerminator c) text"
  shows "\<not> list_ex (\<lambda>i. i_type i = ''context'') (identifyIssues text)"
proof -
  have "\<not> list_all (\<lambda>c. \<not> isLineTerminator c) (toLowerCase text)"
    using assms by (simp add: no_terminator_toLowerCase)
  then have "\<not> noContext text"
    by (simp add: noContext_def lacksOnOneLine_terminator)
  then show ?thesis
    unfolding context_issue_iff by simp
qed

text \<open>
  C6. The two-line prompt is longer than 30 characters and holds no context keyword, so
  the claim has the context issue reported for it; but the pattern \<open>noContext\<close> does not
  match a text with a line feed, and neither \<open>identifyIssues\<close> nor \<open>analyze\<close> reports a
  context issue.
\<close>

theorem context_issue_missing_on_two_lines:
  "length twoLinePrompt > 30
   \<and> \<not> search contextWordHere (toLowerCase twoLinePrompt)
   \<and> \<not> noContext twoLinePrompt
   \<and> \<not> list_ex (\<lambda>i. i_type i = ''context'') (identifyIssues twoLinePrompt)
   \<and> \<not> list_ex (\<lambda>i. i_type i = ''context'') (issues (analyze (JStr twoLinePrompt)))"
proof -
  have a: "length twoLinePrompt > 30 \<and> \<not> search contextWordHere (toLowerCase twoLinePrompt)"
    by code_simp
  have t: "\<not> list_all (\<lambda>c. \<not> isLineTerminator c) twoLinePrompt"
    by (simp add: twoLinePrompt_def isLineTerminator_def)
  have b: "\<not> noContext twoLinePrompt"
    using t by (simp add: noContext_def lacksOnOneLine_terminator no_terminator_toLowerCase)
  have c: "\<not> list_ex (\<lambda>i. i_type i = ''context'') (identifyIssues twoLinePrompt)"
    using b by (simp add: context_issue_iff)
  have ne: "twoLinePrompt \<noteq> []" by (simp add: twoLinePrompt_def)
  have d: "issues (analyze (JStr twoLinePrompt)) = identifyIssues twoLinePrompt"
    using ne by simp
  from a b c d show ?thesis by simp
qed

section \<open>Properties of the enhancer\<close>

lemma set_insertSorted: "set (insertSorted f x xs) = insert x (set xs)"
  by (induction xs) auto

lemma set_sortJS: "set (sortJS f xs) = set xs"
  unfolding sortJS_def by (induction xs) (simp_all add: set_insertSorted)

lemma e_type_createEnhancementForIssue:
  "e_type (createEnhancementForIssue i a now) = ''issue_fix''"
  by (simp add: createEnhancementForIssue_def Let_def)

lemma hasStrategic_append:
  "hasStrategic ty (xs @ ys) = (hasStrategic ty xs \<or> hasStrategic ty ys)"
  by (simp add: hasStrategic_def)

lemma hasStrategic_issue_fixes:
  "\<not> hasStrategic ty (map (\<lambda>i. createEnhancementForIssue i a now) is)"
  by (induction "is") (simp_all add: hasStrategic_def e_type_createEnhancementForIssue)

lemma hasStrategic_templates: "\<not> hasStrategic ty (enhancer_getTemplateSuggestions cats a)"
proof -
  have "\<not> hasStrategic ty (map f ts)" if "\<And>t. e_type (f t) = ''template''"
    for f :: "template \<Rightarrow> enhancement" and ts
    using that by (induction ts) (simp_all add: hasStrategic_def)
  then show ?thesis
    by (simp add: enhancer_getTemplateSuggestions_def)
qed

lemma hasStrategic_generateSuggestions:
  "hasStrategic ty (enhancer_generateSuggestions cats a now)
   = hasStrategic ty (getStrategicEnhancements a)"
proof -
  have "hasStrategic ty (sortJS f xs) = hasStrategic ty xs" for f xs
    by (simp add: hasStrategic_def list_ex_iff set_sortJS)
  then show ?thesis
    by (simp add: enhancer_generateSuggestions_def prioritizeSuggestions_def
        hasStrategic_append hasStrategic_issue_fixes hasStrategic_templates)
qed

lemma strategies_distinct:
  "CONTEXT_ADDITION \<noteq> STRUCTURE_IMPROVEMENT" "CONTEXT_ADDITION \<noteq> ROLE_DEFINITION"
  "STRUCTURE_IMPROVEMENT \<noteq> ROLE_DEFINITION" "STRUCTURE_IMPROVEMENT \<noteq> CONTEXT_ADDITION"
  "ROLE_DEFINITION \<noteq> CONTEXT_ADDITION" "ROLE_DEFINITION \<noteq> STRUCTURE_IMPROVEMENT"
  by (simp_all add: CONTEXT_ADDITION_def STRUCTURE_IMPROVEMENT_def ROLE_DEFINITION_def)

lemma strategic_context_iff:
  "hasStrategic CONTEXT_ADDITION (enhancer_generateSuggestions cats a now)
   = (score a < 60 \<and> metricAbove (metrics a) wordCount 10)"
  unfolding hasStrategic_generateSuggestions
  by (simp add: getStrategicEnhancements_def Let_def hasStrategic_def strategies_distinct)

lemma strategic_structure_iff:
  "hasStrategic STRUCTURE_IMPROVEMENT (enhancer_generateSuggestions cats a now)
   = (metricAbove (metrics a) wordCount 100 \<and> metricAbove (metrics a) sentenceCount 5)"
  unfolding hasStrategic_generateSuggestions
  by (simp add: getStrategicEnhancements_def Let_def hasStrategic_def strategies_distinct)

lemma strategic_role_iff:
  "hasStrategic ROLE_DEFINITION (enhancer_generateSuggestions cats a now)
   = (metricAbove (metrics a) complexityScore 50
      \<and> \<not> includesJS ''act as'' (toLowerCase (originalText a)))"
  unfolding hasStrategic_generateSuggestions
  by (simp add: getStrategicEnhancements_def Let_def hasStrategic_def strategies_distinct)

text \<open>
  C7, as the source has it. For every analysis, the sorted suggestions hold a strategic
  context-addition suggestion exactly when the score is below 60 and the word count above
  10, a strategic structure-improvement suggestion exactly when the word count is above
  100 and the sentence count above 5, and a strategic role-definition suggestion exactly
  when the complexity score is above 50 and the lower-cased text does not contain
  \<open>act as\<close>, the one role phrase this check looks for. (A comparison with a metric of
  the empty metrics object is false.)
\<close>

theorem strategic_suggestions:
  "hasStrategic CONTEXT_ADDITION (enhancer_generateSuggestions cats a now)
     = (score a < 60 \<and> metricAbove (metrics a) wordCount 10)
   \<and> hasStrategic STRUCTURE_IMPROVEMENT (enhancer_generateSuggestions cats a now)
     = (metricAbove (metrics a) wordCount 100 \<and> metricAbove (metrics a) sentenceCount 5)
   \<and> hasStrategic ROLE_DEFINITION (enhancer_generateSuggestions cats a now)
     = (metricAbove (metrics a) complexityScore 50
        \<and> \<not> includesJS ''act as'' (toLowerCase (originalText a)))"
  by (simp add: strategic_context_iff strategic_structure_iff strategic_role_iff)

lemma longAnalysis_no_act_as: "\<not> includesJS ''act as'' (toLowerCase (originalText longAnalysis))"
  by code_simp

theorem strategic_suggestions_witness:
  "map_option wordCount (metrics longAnalysis) = Some 120
   \<and> map_option sentenceCount (metrics longAnalysis) = Some 6
   \<and> map_option complexityScore (metrics longAnalysis) = Some 60
   \<and> score longAnalysis = 75
   \<and> \<not> includesJS ''act as'' (toLowerCase (originalText longAnalysis))
   \<and> hasStrategic ROLE_DEFINITION (enhancer_generateSuggestions None longAnalysis 0)
   \<and> hasStrategic STRUCTURE_IMPROVEMENT (enhancer_generateSuggestions None longAnalysis 0)
   \<and> \<not> hasStrategic CONTEXT_ADDITION (enhancer_generateSuggestions None longAnalysis 0)"
proof -
  have m: "metrics longAnalysis
     = Some \<lparr>characterCount = 700, wordCount = 120, sentenceCount = 6, paragraphCount = 1,
             averageWordsPerSentence = 20, readabilityScore = 50, complexityScore = 60,
             specificityScore = 10\<rparr>"
    by (simp add: longAnalysis_def)
  have s: "score longAnalysis = 75" by (simp add: longAnalysis_def)
  from strategic_suggestions[of None longAnalysis 0] m s longAnalysis_no_act_as
  show ?thesis by (simp add: metricAbove_def)
qed

text \<open>
  C7, as the claim states it, fails. The prompt \<open>roleText\<close> opens with the role phrase
  \<open>You are\<close>, one of the phrases the analyzer's \<open>needsRole\<close> pattern knows, and its
  analysis has complexity score 65; the claim has no strategic role-definition suggestion
  for it, and the source produces one.
\<close>

lemma roleText_complexity: "calculateComplexity roleText = 65"
  by code_simp

lemma roleText_phrases:
  "search rolePhraseHere (toLowerCase roleText) \<and> \<not> includesJS ''act as'' (toLowerCase roleText)"
  by code_simp

theorem strategic_role_counterexample:
  "search rolePhraseHere (toLowerCase (originalText (analyze (JStr roleText))))
   \<and> map_option complexityScore (metrics (analyze (JStr roleText))) = Some 65
   \<and> hasStrategic ROLE_DEFINITION
        (enhancer_generateSuggestions None (analyze (JStr roleText)) 0)"
proof -
  have ne: "roleText \<noteq> []" by (simp add: roleText_def)
  have t: "originalText (analyze (JStr roleText)) = roleText" using ne by simp
  have c: "map_option complexityScore (metrics (analyze (JStr roleText))) = Some 65"
    using ne by (simp add: calculateMetrics_def Let_def roleText_complexity)
  then have "metricAbove (metrics (analyze (JStr roleText))) complexityScore 50"
    by (auto simp: metricAbove_def split: option.splits)
  with roleText_phrases t c show ?thesis
    by (simp add: strategic_role_iff)
qed

text \<open>
  C10. For an enhancement type that is none of the six strategies (any other string, or a
  value that is not a string), \<open>enhance\<close> returns the general enhancement of the text:
  \<open>Please\<close> and the lower-cased text when the text holds neither \<open>please\<close> nor \<open>thank\<close>
  (in any letter case), otherwise the text itself, followed by the request for specifics
  when the text holds neither \<open>specific\<close> nor \<open>detail\<close>. (\<open>enhance\<close> has a result for
  every string and type: the general enhancement has no failing operation.)
\<close>

theorem enhance_default:
  assumes "enhancementType \<notin> set [JStr CONTEXT_ADDITION, JStr ROLE_DEFINITION,
             JStr FORMAT_SPECIFICATION, JStr SPECIFICITY_BOOST, JStr STRUCTURE_IMPROVEMENT,
             JStr TEMPLATE_APPLICATION]"
  shows "enhance text enhancementType options rnd = generalEnhancement text options
       \<and> generalEnhancement text options
         = (if \<not> includesJS ''please'' (toLowerCase text) \<and> \<not> includesJS ''thank'' (toLowerCase text)
            then ''Please '' @ toLowerCase text else text)
           @ (if \<not> includesJS ''specific'' (toLowerCase text)
                 \<and> \<not> includesJS ''detail'' (toLowerCase text)
              then '' Please be specific and provide detailed information.'' else [])"
  using assms by (simp add: enhance_def generalEnhancement_def Let_def)

theorem enhance_default_witness:
  "JStr ''summarize'' \<notin> set [JStr CONTEXT_ADDITION, JStr ROLE_DEFINITION,
      JStr FORMAT_SPECIFICATION, JStr SPECIFICITY_BOOST, JStr STRUCTURE_IMPROVEMENT,
      JStr TEMPLATE_APPLICATION]
   \<and> enhance ''Write code'' (JStr ''summarize'') noOptions (1 / 2)
     = ''Please write code Please be specific and provide detailed information.''
   \<and> enhance ''Thanks for the DETAILS'' JUndefined noOptions (1 / 2)
     = ''Thanks for the DETAILS''"
proof -
  have n: "JStr ''summarize'' \<notin> set [JStr CONTEXT_ADDITION, JStr ROLE_DEFINITION,
      JStr FORMAT_SPECIFICATION, JStr SPECIFICITY_BOOST, JStr STRUCTURE_IMPROVEMENT,
      JStr TEMPLATE_APPLICATION]"
    by (simp add: CONTEXT_ADDITION_def ROLE_DEFINITION_def FORMAT_SPECIFICATION_def
        SPECIFICITY_BOOST_def STRUCTURE_IMPROVEMENT_def TEMPLATE_APPLICATION_def)
  have u: "JUndefined \<notin> set [JStr CONTEXT_ADDITION, JStr ROLE_DEFINITION,
      JStr FORMAT_SPECIFICATION, JStr SPECIFICITY_BOOST, JStr STRUCTURE_IMPROVEMENT,
      JStr TEMPLATE_APPLICATION]"
    by simp
  have g1: "generalEnhancement ''Write code'' noOptions
            = ''Please write code Please be specific and provide detailed information.''"
    by code_simp
  have g2: "generalEnhancement ''Thanks for the DETAILS'' noOptions = ''Thanks for the DETAILS''"
    by code_simp
  from enhance_default[OF n, of "''Write code''" noOptions "1 / 2"]
    enhance_default[OF u, of "''Thanks for the DETAILS''" noOptions "1 / 2"] n g1 g2
  show ?thesis by simp
qed
end
